theory Spec2Isabelle
  imports Complex_Main "HOL-Library.Product_Lexorder" "HOL-Library.Multiset"
begin

section \<open>JavaScript values and request bodies\<close>

text \<open>
  A request body is what \<^verbatim>\<open>express.json()\<close> parsed: a JSON value. A property that is
  absent from an object reads as \<^verbatim>\<open>undefined\<close>, which is \<open>None\<close> here. JSON numbers are
  finite, so every one of them is a rational.
\<close>

datatype jsval =
    JNull
  | JBool bool
  | JNum rat
  | JStr string
  | JArr "jsval list"
  | JObj "(string \<times> jsval) list"

type_synonym jsobj = "(string \<times> jsval) list"

text \<open>\<^verbatim>\<open>obj[key]\<close>: the keys of an object are distinct.\<close>

definition getprop :: "jsobj \<Rightarrow> string \<Rightarrow> jsval option" where
  "getprop obj k = map_of obj k"

text \<open>
  JavaScript truthiness, the test behind \<^verbatim>\<open>!x\<close>, \<^verbatim>\<open>x ? a : b\<close> and \<^verbatim>\<open>x || y\<close>:
  \<^verbatim>\<open>undefined\<close>, \<^verbatim>\<open>null\<close>, \<^verbatim>\<open>false\<close>, \<^verbatim>\<open>0\<close> and the empty string are falsy,
  everything else (arrays and objects too) is truthy.
\<close>

fun truthy :: "jsval option \<Rightarrow> bool" where
  "truthy None = False"
| "truthy (Some JNull) = False"
| "truthy (Some (JBool b)) = b"
| "truthy (Some (JNum n)) = (n \<noteq> 0)"
| "truthy (Some (JStr s)) = (s \<noteq> [])"
| "truthy (Some (JArr xs)) = True"
| "truthy (Some (JObj kvs)) = True"

text \<open>\<^verbatim>\<open>s.startsWith(p)\<close>\<close>

definition startsWith :: "string \<Rightarrow> string \<Rightarrow> bool" where
  "startsWith s p = (take (length p) s = p)"

text \<open>\<^verbatim>\<open>s.split(c)\<close> for a one-character separator; \<^verbatim>\<open>"".split(" ")\<close> is \<^verbatim>\<open>[""]\<close>.\<close>

fun split_on :: "char \<Rightarrow> string \<Rightarrow> string list" where
  "split_on c [] = [[]]"
| "split_on c (x # xs) =
     (if x = c then [] # split_on c xs
      else (case split_on c xs of
              [] \<Rightarrow> [[x]]
            | w # ws \<Rightarrow> (x # w) # ws))"

section \<open>Errors and libraries\<close>

text \<open>
  The exceptions that reach a handler's \<^verbatim>\<open>catch\<close>. The first four are thrown by the
  driver, better-sqlite3, when it binds the arguments of a call: "SQLite3 can only bind
  numbers, strings, bigints, buffers, and null", "Too few parameter values were provided",
  "Too many parameter values were provided", "You cannot specify named parameters in two
  different objects". \<open>ConstraintError\<close> is a failed NOT NULL constraint, \<open>SyntaxError\<close> is
  thrown by \<^verbatim>\<open>JSON.parse\<close>, \<open>IllegalArguments\<close> by bcryptjs, and \<open>Thrown name message\<close> is
  any other exception of a library, with its \<^verbatim>\<open>name\<close> and \<^verbatim>\<open>message\<close>.
\<close>

datatype error =
    BindTypeError
  | TooFewValues
  | TooManyValues
  | TwoNamedObjects
  | ConstraintError
  | SyntaxError
  | IllegalArguments
  | Thrown string string

datatype message =
    Msg string
  | NoApartmentWithId int
  | ExnMessage error
  | UploadedCount nat

text \<open>
  Three functions of the platform are parameters of the handlers: \<open>json_parse\<close> is
  \<^verbatim>\<open>JSON.parse\<close> on a text (\<open>None\<close> when it throws); \<open>num_text\<close> is the text SQLite makes
  of a number that meets a column or an operand of TEXT affinity; \<open>text_num\<close> is the number
  SQLite reads from a text that meets a column of INTEGER or REAL affinity, when the text
  is a numeric literal.
\<close>

record libs =
  json_parse :: "string \<Rightarrow> jsval option"
  num_text :: "rat \<Rightarrow> string"
  text_num :: "string \<Rightarrow> rat option"

section \<open>The store (src/database/init.js)\<close>

text \<open>
  A cell of a table: NULL, a number or a text. \<open>SJson xs\<close> is the text that
  \<^verbatim>\<open>JSON.stringify\<close> makes of the array \<open>xs\<close>; it is kept as the array it encodes, it is
  never empty and never a numeric literal, and \<^verbatim>\<open>JSON.parse\<close> gives the array back.
\<close>

datatype sqlval = SNull | SNum rat | SText string | SJson "jsval list"

text \<open>
  An argument of \<^verbatim>\<open>stmt.run\<close> or \<^verbatim>\<open>stmt.get\<close>: a value of the request, or a string made
  by \<^verbatim>\<open>JSON.stringify\<close>.
\<close>

datatype arg = Val "jsval option" | JsonText "jsval list"

text \<open>
  Binding one value: \<^verbatim>\<open>undefined\<close> and \<^verbatim>\<open>null\<close> become NULL, a number a number, a string
  a text; anything else is refused.
\<close>

fun bind_value :: "arg \<Rightarrow> sqlval option" where
  "bind_value (Val None) = Some SNull"
| "bind_value (Val (Some JNull)) = Some SNull"
| "bind_value (Val (Some (JNum n))) = Some (SNum n)"
| "bind_value (Val (Some (JStr s))) = Some (SText s)"
| "bind_value (Val (Some (JBool b))) = None"
| "bind_value (Val (Some (JArr xs))) = None"
| "bind_value (Val (Some (JObj kvs))) = None"
| "bind_value (JsonText xs) = Some (SJson xs)"

text \<open>
  Binding the arguments of a call to the \<open>n\<close> anonymous placeholders of a statement, from
  left to right; \<open>acc\<close> holds the values bound so far. An argument that is an array is
  spread: each of its elements takes the next placeholder. An argument that is a plain
  object carries named parameters, of which these statements have none, so it binds
  nothing; a second one is refused. Any other argument takes the next placeholder. A
  value that finds no placeholder left is one too many, and the call fails as well when
  placeholders are left over at the end.
\<close>

fun bind_array :: "nat \<Rightarrow> sqlval list \<Rightarrow> jsval list \<Rightarrow> error + sqlval list" where
  "bind_array n acc [] = Inr acc"
| "bind_array n acc (x # xs) =
     (case bind_value (Val (Some x)) of
        None \<Rightarrow> Inl BindTypeError
      | Some b \<Rightarrow> if n \<le> length acc then Inl TooManyValues else bind_array n (acc @ [b]) xs)"

fun bind_from :: "nat \<Rightarrow> bool \<Rightarrow> sqlval list \<Rightarrow> arg list \<Rightarrow> error + sqlval list" where
  "bind_from n named acc [] = (if length acc < n then Inl TooFewValues else Inr acc)"
| "bind_from n named acc (a # rest) =
     (case a of
        Val (Some (JArr xs)) \<Rightarrow>
          (case bind_array n acc xs of
             Inl e \<Rightarrow> Inl e
           | Inr acc' \<Rightarrow> bind_from n named acc' rest)
      | Val (Some (JObj kvs)) \<Rightarrow>
          if named then Inl TwoNamedObjects else bind_from n True acc rest
      | _ \<Rightarrow>
          (case bind_value a of
             None \<Rightarrow> Inl BindTypeError
           | Some b \<Rightarrow>
               if n \<le> length acc then Inl TooManyValues
               else bind_from n named (acc @ [b]) rest))"

definition bind_args :: "nat \<Rightarrow> arg list \<Rightarrow> error + sqlval list" where
  "bind_args n args = bind_from n False [] args"

text \<open>
  Column affinity: a number that is stored in a TEXT column becomes its text, and a text
  that is stored in an INTEGER or REAL column becomes a number when it is a numeric
  literal.
\<close>

datatype affinity = TextAffinity | NumericAffinity

definition store_as :: "libs \<Rightarrow> affinity \<Rightarrow> sqlval \<Rightarrow> sqlval" where
  "store_as L af b =
     (case af of
        TextAffinity \<Rightarrow> (case b of SNum n \<Rightarrow> SText (num_text L n) | _ \<Rightarrow> b)
      | NumericAffinity \<Rightarrow>
          (case b of
             SText t \<Rightarrow> (case text_num L t of None \<Rightarrow> SText t | Some r \<Rightarrow> SNum r)
           | _ \<Rightarrow> b))"

text \<open>\<^verbatim>\<open>Boolean(cell)\<close> and \<^verbatim>\<open>cell ? a : b\<close> on a value read from the store.\<close>

fun sql_truthy :: "sqlval \<Rightarrow> bool" where
  "sql_truthy SNull = False"
| "sql_truthy (SNum n) = (n \<noteq> 0)"
| "sql_truthy (SText t) = (t \<noteq> [])"
| "sql_truthy (SJson xs) = True"

text \<open>
  The four tables. Timestamps are readings of the database clock. The key, the flag and
  the order of an image are INTEGER columns that the handlers fill with integers only.
\<close>

record apartment =
  apt_id :: int
  title :: sqlval
  description :: sqlval
  bedrooms :: sqlval
  bathrooms :: sqlval
  max_guests :: sqlval
  price_per_night :: sqlval
  address :: sqlval
  city :: sqlval
  state :: sqlval
  available :: sqlval
  featured :: sqlval
  amenities :: sqlval
  created_at :: nat
  updated_at :: nat

record image =
  img_id :: int
  apartment_id :: int
  image_url :: string
  is_primary :: int
  display_order :: int

record video =
  vid_id :: int
  vid_apartment_id :: int
  video_url :: string

record admin_user =
  admin_id :: int
  username :: string
  password :: string

text \<open>
  Rows are kept in insertion order. The three \<open>seq\<close> fields are the AUTOINCREMENT
  counters of SQLite (table \<^verbatim>\<open>sqlite_sequence\<close>): the largest key ever given out.
\<close>

record store =
  apartments :: "apartment list"
  apartment_images :: "image list"
  apartment_videos :: "video list"
  admin_users :: "admin_user list"
  seq_apartments :: int
  seq_images :: int
  seq_videos :: int

text \<open>The database after \<^verbatim>\<open>initializeDatabase\<close> created the empty tables.\<close>

definition empty_tables :: store where
  "empty_tables =
     \<lparr>apartments = [], apartment_images = [], apartment_videos = [], admin_users = [],
      seq_apartments = 0, seq_images = 0, seq_videos = 0\<rparr>"

text \<open>AUTOINCREMENT: one more than the largest key in the table and the counter.\<close>

definition next_rowid :: "int \<Rightarrow> int list \<Rightarrow> int" where
  "next_rowid seq ids = fold max ids seq + 1"

text \<open>\<^verbatim>\<open>SELECT * FROM apartments WHERE id = ?\<close> with \<^verbatim>\<open>.get(id)\<close>. The route parameter is a
  text that SQLite compares with the INTEGER key; the model takes the integer it denotes,
  and \<open>route_arg\<close> is the parameter as an argument of a call.\<close>

definition route_arg :: "int \<Rightarrow> arg" where
  "route_arg i = Val (Some (JNum (of_int i)))"

definition find_apartment :: "store \<Rightarrow> int \<Rightarrow> apartment option" where
  "find_apartment s i = find (\<lambda>a. apt_id a = i) (apartments s)"

text \<open>\<^verbatim>\<open>ORDER BY is_primary DESC, display_order ASC\<close>\<close>

definition image_key :: "image \<Rightarrow> int \<times> int" where
  "image_key i = (- is_primary i, display_order i)"

definition select_images :: "store \<Rightarrow> int \<Rightarrow> image list" where
  "select_images s i =
     sort_key image_key (filter (\<lambda>img. apartment_id img = i) (apartment_images s))"

definition select_videos :: "store \<Rightarrow> int \<Rightarrow> video list" where
  "select_videos s i = filter (\<lambda>v. vid_apartment_id v = i) (apartment_videos s)"

text \<open>\<^verbatim>\<open>ORDER BY created_at DESC\<close>; rows with equal timestamps stay in table order.\<close>

definition newest_first :: "apartment list \<Rightarrow> apartment list" where
  "newest_first rows = sort_key (\<lambda>a. - int (created_at a)) rows"

section \<open>Responses\<close>

text \<open>
  The object a handler sends for an apartment: the row, with \<open>available\<close> and \<open>featured\<close>
  turned into booleans and \<open>amenities\<close> parsed; a listing carries its media as well.
\<close>

record shaped =
  row :: apartment
  r_available :: bool
  r_featured :: bool
  r_amenities :: jsval

record listing = shaped +
  images :: "image list"
  videos :: "video list"

record upload =
  url :: string
  filename :: string
  size :: nat

datatype payload =
    Failure string message
  | Apartments nat "listing list"
  | Apartment listing
  | Created string listing
  | Updated string shaped
  | Success string
  | Uploaded message "upload list"
  | LoggedIn string string int string

datatype response = Response nat payload

fun status :: "response \<Rightarrow> nat" where
  "status (Response n p) = n"

text \<open>\<^verbatim>\<open>cell ? JSON.parse(cell) : []\<close>; \<^verbatim>\<open>JSON.parse\<close> of a number gives the number.\<close>

definition parse_amenities :: "libs \<Rightarrow> sqlval \<Rightarrow> error + jsval" where
  "parse_amenities L cell =
     (if sql_truthy cell then
        (case cell of
           SNull \<Rightarrow> Inr (JArr [])
         | SNum n \<Rightarrow> Inr (JNum n)
         | SText t \<Rightarrow> (case json_parse L t of None \<Rightarrow> Inl SyntaxError | Some v \<Rightarrow> Inr v)
         | SJson xs \<Rightarrow> Inr (JArr xs))
      else Inr (JArr []))"

definition shape :: "libs \<Rightarrow> apartment \<Rightarrow> error + shaped" where
  "shape L a =
     (case parse_amenities L (amenities a) of
        Inl e \<Rightarrow> Inl e
      | Inr parsed \<Rightarrow>
          Inr \<lparr>row = a,
               r_available = sql_truthy (available a),
               r_featured = sql_truthy (featured a),
               r_amenities = parsed\<rparr>)"

definition with_media :: "libs \<Rightarrow> apartment \<Rightarrow> image list \<Rightarrow> video list \<Rightarrow> error + listing" where
  "with_media L a imgs vids =
     (case shape L a of
        Inl e \<Rightarrow> Inl e
      | Inr sh \<Rightarrow> Inr (shaped.extend sh \<lparr>images = imgs, videos = vids\<rparr>))"

section \<open>The authentication middleware (src/middleware/auth.js)\<close>

text \<open>
  \<^verbatim>\<open>jwt.verify(token, secret)\<close> belongs to the jsonwebtoken library: it returns the decoded
  payload or throws an error with a name. The middleware takes it as a parameter.
\<close>

datatype jwt_result =
    Decoded jsobj
  | VerifyThrows string string

record admin_ctx =
  ctx_id :: "jsval option"
  ctx_username :: "jsval option"

datatype 'r reply =
    Reject response
  | Next 'r

text \<open>\<^verbatim>\<open>authHeader.split(' ')[1]\<close>, \<open>None\<close> when the header has no second piece.\<close>

definition second_piece :: "string \<Rightarrow> string option" where
  "second_piece h = (case tl (split_on CHR '' '' h) of [] \<Rightarrow> None | t # rest \<Rightarrow> Some t)"

text \<open>
  \<open>authenticateAdmin verify authHeader next\<close>: \<open>authHeader\<close> is
  \<^verbatim>\<open>req.headers.authorization\<close> (\<open>None\<close> when the header is absent), \<open>next\<close> is the
  protected handler, which receives \<^verbatim>\<open>req.admin\<close>.
\<close>

definition authenticateAdmin ::
  "(string \<Rightarrow> jwt_result) \<Rightarrow> string option \<Rightarrow> (admin_ctx \<Rightarrow> 'r) \<Rightarrow> 'r reply" where
  "authenticateAdmin verify authHeader next =
     (case authHeader of
        None \<Rightarrow>
          Reject (Response 401
            (Failure ''No authorization token provided'' (Msg ''Please login first'')))
      | Some h \<Rightarrow>
          if h = [] then
            Reject (Response 401
              (Failure ''No authorization token provided'' (Msg ''Please login first'')))
          else
            (case second_piece h of
               None \<Rightarrow>
                 Reject (Response 401
                   (Failure ''Invalid token format'' (Msg ''Token should be: Bearer <token>'')))
             | Some token \<Rightarrow>
                 if token = [] then
                   Reject (Response 401
                     (Failure ''Invalid token format'' (Msg ''Token should be: Bearer <token>'')))
                 else
                   (case verify token of
                      Decoded decoded \<Rightarrow>
                        Next (next \<lparr>ctx_id = getprop decoded ''id'',
                                    ctx_username = getprop decoded ''username''\<rparr>)
                    | VerifyThrows name msg \<Rightarrow>
                        if name = ''JsonWebTokenError'' then
                          Reject (Response 401
                            (Failure ''Invalid token'' (Msg ''Please login again'')))
                        else if name = ''TokenExpiredError'' then
                          Reject (Response 401
                            (Failure ''Token expired''
                               (Msg ''Your session has expired. Please login again'')))
                        else
                          Reject (Response 500
                            (Failure ''Authentication failed''
                               (ExnMessage (Thrown name msg)))))))"

fun reply_status :: "'r reply \<Rightarrow> nat option" where
  "reply_status (Reject r) = Some (status r)"
| "reply_status (Next r) = None"

section \<open>The apartment controller (src/controllers/apartmentController.js)\<close>

text \<open>
  Every handler takes the store and returns its response, and the store it leaves when it
  writes. A handler's \<^verbatim>\<open>catch\<close> turns an exception into a response with status 500.
\<close>

definition isAdmin :: "string option \<Rightarrow> bool" where
  "isAdmin authorization =
     (case authorization of
        None \<Rightarrow> False
      | Some h \<Rightarrow> h \<noteq> [] \<and> startsWith h ''Bearer'')"

text \<open>\<^verbatim>\<open>apartments.map(apt => ...)\<close>: the first \<^verbatim>\<open>JSON.parse\<close> that throws ends the walk.\<close>

fun listings :: "libs \<Rightarrow> store \<Rightarrow> apartment list \<Rightarrow> error + listing list" where
  "listings L s [] = Inr []"
| "listings L s (apt # rest) =
     (case with_media L apt (select_images s (apt_id apt)) (select_videos s (apt_id apt)) of
        Inl e \<Rightarrow> Inl e
      | Inr l \<Rightarrow>
          (case listings L s rest of
             Inl e \<Rightarrow> Inl e
           | Inr ls \<Rightarrow> Inr (l # ls)))"

text \<open>The rows the query of the list operation selects.\<close>

definition selected :: "store \<Rightarrow> string option \<Rightarrow> apartment list" where
  "selected s authorization =
     (if isAdmin authorization then newest_first (apartments s)
      else newest_first (filter (\<lambda>a. available a = SNum 1) (apartments s)))"

definition getAllApartments :: "libs \<Rightarrow> store \<Rightarrow> string option \<Rightarrow> response" where
  "getAllApartments L s authorization =
     (case listings L s (selected s authorization) of
        Inl e \<Rightarrow> Response 500 (Failure ''Failed to fetch apartments'' (ExnMessage e))
      | Inr apartmentsWithMedia \<Rightarrow>
          Response 200 (Apartments (length apartmentsWithMedia) apartmentsWithMedia))"

definition getApartmentById :: "libs \<Rightarrow> store \<Rightarrow> int \<Rightarrow> response" where
  "getApartmentById L s i =
     (case find_apartment s i of
        None \<Rightarrow> Response 404 (Failure ''Apartment not found'' (NoApartmentWithId i))
      | Some apartment \<Rightarrow>
          (case with_media L apartment (select_images s i) (select_videos s i) of
             Inl e \<Rightarrow> Response 500 (Failure ''Failed to fetch apartment'' (ExnMessage e))
           | Inr l \<Rightarrow> Response 200 (Apartment l)))"

text \<open>Destructuring with a default: the default stands in for \<^verbatim>\<open>undefined\<close> only.\<close>

definition with_default :: "jsval option \<Rightarrow> jsval \<Rightarrow> jsval option" where
  "with_default v d = (case v of None \<Rightarrow> Some d | Some x \<Rightarrow> Some x)"

text \<open>\<^verbatim>\<open>Array.isArray(x) ? JSON.stringify(x) : null\<close>\<close>

definition amenities_json :: "jsval option \<Rightarrow> arg" where
  "amenities_json v = (case v of Some (JArr xs) \<Rightarrow> JsonText xs | _ \<Rightarrow> Val (Some JNull))"

text \<open>\<^verbatim>\<open>x ? 1 : 0\<close>\<close>

definition flag :: "jsval option \<Rightarrow> arg" where
  "flag v = Val (Some (JNum (if truthy v then 1 else 0)))"

definition required_fields :: "string list" where
  "required_fields =
     [''title'', ''bedrooms'', ''bathrooms'', ''max_guests'', ''price_per_night'',
      ''address'', ''city'', ''state'']"

definition missing_required :: "jsobj \<Rightarrow> bool" where
  "missing_required body =
     (\<not> truthy (getprop body ''title'') \<or> \<not> truthy (getprop body ''bedrooms'')
      \<or> \<not> truthy (getprop body ''bathrooms'') \<or> \<not> truthy (getprop body ''max_guests'')
      \<or> \<not> truthy (getprop body ''price_per_night'') \<or> \<not> truthy (getprop body ''address'')
      \<or> \<not> truthy (getprop body ''city'') \<or> \<not> truthy (getprop body ''state''))"

text \<open>The columns of the table: their affinity, the ones declared NOT NULL, and the
  assignment of a value to one of them.\<close>

definition affinity_of :: "string \<Rightarrow> affinity" where
  "affinity_of c =
     (if c \<in> set [''bedrooms'', ''bathrooms'', ''max_guests'', ''price_per_night'',
                   ''available'', ''featured'']
      then NumericAffinity else TextAffinity)"

definition not_null_columns :: "string list" where
  "not_null_columns =
     [''title'', ''bedrooms'', ''bathrooms'', ''max_guests'', ''price_per_night'',
      ''address'', ''city'', ''state'']"

definition set_column :: "string \<Rightarrow> sqlval \<Rightarrow> apartment \<Rightarrow> apartment" where
  "set_column c b r =
     (if c = ''title'' then r\<lparr>title := b\<rparr>
      else if c = ''description'' then r\<lparr>description := b\<rparr>
      else if c = ''bedrooms'' then r\<lparr>bedrooms := b\<rparr>
      else if c = ''bathrooms'' then r\<lparr>bathrooms := b\<rparr>
      else if c = ''max_guests'' then r\<lparr>max_guests := b\<rparr>
      else if c = ''price_per_night'' then r\<lparr>price_per_night := b\<rparr>
      else if c = ''address'' then r\<lparr>address := b\<rparr>
      else if c = ''city'' then r\<lparr>city := b\<rparr>
      else if c = ''state'' then r\<lparr>state := b\<rparr>
      else if c = ''available'' then r\<lparr>available := b\<rparr>
      else if c = ''featured'' then r\<lparr>featured := b\<rparr>
      else if c = ''amenities'' then r\<lparr>amenities := b\<rparr>
      else r)"

text \<open>Writing bound values to the columns they were bound for, in the order of the
  statement; a NULL for a NOT NULL column fails the statement.\<close>

definition write_columns :: "libs \<Rightarrow> (string \<times> sqlval) list \<Rightarrow> apartment \<Rightarrow> apartment" where
  "write_columns L cvs r = fold (\<lambda>(c, b). set_column c (store_as L (affinity_of c) b)) cvs r"

definition violates_not_null :: "(string \<times> sqlval) list \<Rightarrow> bool" where
  "violates_not_null cvs = list_ex (\<lambda>(c, b). c \<in> set not_null_columns \<and> b = SNull) cvs"

text \<open>
  \<open>createApartment\<close>. The INSERT names twelve columns and has twelve placeholders; the
  handler passes twelve arguments. The key of the new row comes from AUTOINCREMENT, both
  timestamps from \<^verbatim>\<open>DEFAULT CURRENT_TIMESTAMP\<close>. The response parses the stored amenities
  after the row is written.
\<close>

definition insert_columns :: "string list" where
  "insert_columns =
     [''title'', ''description'', ''bedrooms'', ''bathrooms'', ''max_guests'',
      ''price_per_night'', ''address'', ''city'', ''state'', ''available'', ''featured'',
      ''amenities'']"

definition create_args :: "jsobj \<Rightarrow> arg list" where
  "create_args body =
     [Val (getprop body ''title''),
      Val (getprop body ''description''),
      Val (getprop body ''bedrooms''),
      Val (getprop body ''bathrooms''),
      Val (getprop body ''max_guests''),
      Val (getprop body ''price_per_night''),
      Val (getprop body ''address''),
      Val (getprop body ''city''),
      Val (getprop body ''state''),
      flag (with_default (getprop body ''available'') (JBool True)),
      flag (with_default (getprop body ''featured'') (JBool False)),
      amenities_json (with_default (getprop body ''amenities'') (JArr []))]"

definition blank_row :: "int \<Rightarrow> nat \<Rightarrow> apartment" where
  "blank_row k now =
     \<lparr>apt_id = k, title = SNull, description = SNull, bedrooms = SNull, bathrooms = SNull,
      max_guests = SNull, price_per_night = SNull, address = SNull, city = SNull,
      state = SNull, available = SNull, featured = SNull, amenities = SNull,
      created_at = now, updated_at = now\<rparr>"

definition createApartment :: "libs \<Rightarrow> store \<Rightarrow> nat \<Rightarrow> jsobj \<Rightarrow> response \<times> store" where
  "createApartment L s now body =
     (if missing_required body then
        (Response 400 (Failure ''Missing required fields''
           (Msg ''Title, bedrooms, bathrooms, max_guests, price_per_night, address, city, and state are required'')),
         s)
      else
        (case bind_args 12 (create_args body) of
           Inl e \<Rightarrow> (Response 500 (Failure ''Failed to create apartment'' (ExnMessage e)), s)
         | Inr bs \<Rightarrow>
             if violates_not_null (zip insert_columns bs) then
               (Response 500 (Failure ''Failed to create apartment'' (ExnMessage ConstraintError)),
                s)
             else
               (let lastInsertRowid = next_rowid (seq_apartments s) (map apt_id (apartments s));
                    inserted =
                      write_columns L (zip insert_columns bs) (blank_row lastInsertRowid now);
                    s' = s\<lparr>apartments := apartments s @ [inserted],
                           seq_apartments := lastInsertRowid\<rparr>
                in (case find_apartment s' lastInsertRowid of
                      None \<Rightarrow>
                        (Response 500 (Failure ''Failed to create apartment''
                           (ExnMessage (Thrown ''TypeError'' ''newApartment is undefined''))), s')
                    | Some newApartment \<Rightarrow>
                        (case with_media L newApartment [] [] of
                           Inl e \<Rightarrow>
                             (Response 500 (Failure ''Failed to create apartment'' (ExnMessage e)),
                              s')
                         | Inr l \<Rightarrow>
                             (Response 201 (Created ''Apartment created successfully'' l),
                              s'))))))"

text \<open>
  \<open>updateApartment\<close>. The handler walks over \<^verbatim>\<open>Object.keys(updates)\<close> and pushes, for every
  key of the allow-list, a column into \<^verbatim>\<open>updateFields\<close> and its value into \<^verbatim>\<open>values\<close>;
  the two arrays grow together and are kept here as one list of pairs. The statement has
  one placeholder for each column and one for the id, which the handler passes last.
\<close>

definition allowedFields :: "string list" where
  "allowedFields =
     [''title'', ''description'', ''bedrooms'', ''bathrooms'', ''max_guests'',
      ''price_per_night'', ''address'', ''city'', ''state'', ''available'', ''featured'',
      ''amenities'']"

definition update_value :: "string \<Rightarrow> jsval \<Rightarrow> arg" where
  "update_value key v =
     (if key = ''available'' \<or> key = ''featured'' then flag (Some v)
      else if key = ''amenities'' then amenities_json (Some v)
      else Val (Some v))"

definition updateFields :: "jsobj \<Rightarrow> (string \<times> arg) list" where
  "updateFields updates =
     map (\<lambda>(key, v). (key, update_value key v))
         (filter (\<lambda>(key, v). key \<in> set allowedFields) updates)"

text \<open>\<^verbatim>\<open>UPDATE apartments SET ..., updated_at = CURRENT_TIMESTAMP WHERE id = ?\<close>, for the
  bound value \<open>w\<close> of the last placeholder.\<close>

definition run_update :: "libs \<Rightarrow> store \<Rightarrow> nat \<Rightarrow> sqlval \<Rightarrow> (string \<times> sqlval) list \<Rightarrow> store" where
  "run_update L s now w cvs =
     s\<lparr>apartments :=
         map (\<lambda>a. if SNum (of_int (apt_id a)) = w
                  then (write_columns L cvs a)\<lparr>updated_at := now\<rparr> else a)
             (apartments s)\<rparr>"

definition updateApartment ::
  "libs \<Rightarrow> store \<Rightarrow> nat \<Rightarrow> int \<Rightarrow> jsobj \<Rightarrow> response \<times> store" where
  "updateApartment L s now i updates =
     (case find_apartment s i of
        None \<Rightarrow> (Response 404 (Failure ''Apartment not found'' (NoApartmentWithId i)), s)
      | Some existing \<Rightarrow>
          if updateFields updates = [] then
            (Response 400 (Failure ''No valid fields to update''
               (Msg ''Provide at least one valid field to update'')), s)
          else
            (case bind_args (length (updateFields updates) + 1)
                    (map snd (updateFields updates) @ [route_arg i]) of
               Inl e \<Rightarrow> (Response 500 (Failure ''Failed to update apartment'' (ExnMessage e)), s)
             | Inr bs \<Rightarrow>
                 if violates_not_null (zip (map fst (updateFields updates)) bs) then
                   (Response 500 (Failure ''Failed to update apartment''
                      (ExnMessage ConstraintError)), s)
                 else
                   (let s' = run_update L s now (last bs)
                               (zip (map fst (updateFields updates)) bs)
                    in (case find_apartment s' i of
                          None \<Rightarrow>
                            (Response 500 (Failure ''Failed to update apartment''
                               (ExnMessage (Thrown ''TypeError'' ''updated is undefined''))), s')
                        | Some updated \<Rightarrow>
                            (case shape L updated of
                               Inl e \<Rightarrow>
                                 (Response 500 (Failure ''Failed to update apartment''
                                    (ExnMessage e)), s')
                             | Inr sh \<Rightarrow>
                                 (Response 200 (Updated ''Apartment updated successfully'' sh),
                                  s'))))))"

text \<open>
  \<open>deleteApartment\<close>. \<^verbatim>\<open>DELETE FROM apartments WHERE id = ?\<close> takes the images and videos
  of the apartment with it (\<^verbatim>\<open>ON DELETE CASCADE\<close>, with \<^verbatim>\<open>foreign_keys = ON\<close>). Then the
  handler unlinks one file per image and video; \<open>unlink\<close> tells for which stored paths the
  file system succeeds. A failed unlink is caught and logged, and the handler answers 200.
  The third component is the log.
\<close>

definition delete_cascade :: "store \<Rightarrow> int \<Rightarrow> store" where
  "delete_cascade s i =
     s\<lparr>apartments := filter (\<lambda>a. apt_id a \<noteq> i) (apartments s),
       apartment_images := filter (\<lambda>img. apartment_id img \<noteq> i) (apartment_images s),
       apartment_videos := filter (\<lambda>v. vid_apartment_id v \<noteq> i) (apartment_videos s)\<rparr>"

definition deleteApartment ::
  "store \<Rightarrow> (string \<Rightarrow> bool) \<Rightarrow> int \<Rightarrow> response \<times> store \<times> string list" where
  "deleteApartment s unlink i =
     (case find_apartment s i of
        None \<Rightarrow> (Response 404 (Failure ''Apartment not found'' (NoApartmentWithId i)), s, [])
      | Some apartment \<Rightarrow>
          (let imgs = filter (\<lambda>img. apartment_id img = i) (apartment_images s);
               vids = filter (\<lambda>v. vid_apartment_id v = i) (apartment_videos s);
               s' = delete_cascade s i;
               paths = map image_url imgs @ map video_url vids;
               logged = filter (\<lambda>p. \<not> unlink p) paths
           in (Response 200 (Success ''Apartment deleted successfully''), s', logged)))"

section \<open>The media routes (src/routes/apartments.js)\<close>

text \<open>A file as multer hands it over after the upload: \<open>path\<close> is the URL of the media host.\<close>

record upload_file =
  path :: string
  file_name :: string
  file_size :: nat

text \<open>\<^verbatim>\<open>SELECT MAX(display_order) ... WHERE apartment_id = ?\<close>: NULL when there is no row.\<close>

definition max_order :: "store \<Rightarrow> int \<Rightarrow> int option" where
  "max_order s i =
     (case map display_order (filter (\<lambda>img. apartment_id img = i) (apartment_images s)) of
        [] \<Rightarrow> None
      | d # ds \<Rightarrow> Some (fold max ds d))"

text \<open>\<^verbatim>\<open>(maxOrder?.max_order || -1) + 1\<close>: \<^verbatim>\<open>||\<close> takes its right side when the left side is
  falsy, that is for NULL and for 0.\<close>

definition currentOrder :: "int option \<Rightarrow> int" where
  "currentOrder m = (case m of None \<Rightarrow> - 1 | Some n \<Rightarrow> if n = 0 then - 1 else n) + 1"

text \<open>\<^verbatim>\<open>INSERT INTO apartment_images (apartment_id, image_url, display_order)\<close>: the key is
  given by AUTOINCREMENT and \<open>is_primary\<close> takes its default 0.\<close>

definition insert_image :: "store \<Rightarrow> int \<Rightarrow> string \<Rightarrow> int \<Rightarrow> store" where
  "insert_image s i imageUrl ord =
     (let k = next_rowid (seq_images s) (map img_id (apartment_images s))
      in s\<lparr>apartment_images :=
             apartment_images s @
               [\<lparr>img_id = k, apartment_id = i, image_url = imageUrl, is_primary = 0,
                 display_order = ord\<rparr>],
           seq_images := k\<rparr>)"

text \<open>\<^verbatim>\<open>req.files.map((file, index) => ... stmt.run(id, imageUrl, currentOrder + index))\<close>;
  \<open>ord\<close> is \<^verbatim>\<open>currentOrder + index\<close> of the first file of the list.\<close>

fun insert_files :: "store \<Rightarrow> int \<Rightarrow> int \<Rightarrow> upload_file list \<Rightarrow> store" where
  "insert_files s i ord [] = s"
| "insert_files s i ord (f # fs) = insert_files (insert_image s i (path f) ord) i (ord + 1) fs"

definition uploadImages :: "store \<Rightarrow> int \<Rightarrow> upload_file list option \<Rightarrow> response \<times> store" where
  "uploadImages s i files =
     (case find_apartment s i of
        None \<Rightarrow> (Response 404 (Failure ''Apartment not found'' (NoApartmentWithId i)), s)
      | Some apartment \<Rightarrow>
          (case files of
             None \<Rightarrow>
               (Response 400 (Failure ''No files uploaded''
                  (Msg ''Please select at least one image to upload'')), s)
           | Some fs \<Rightarrow>
               if fs = [] then
                 (Response 400 (Failure ''No files uploaded''
                    (Msg ''Please select at least one image to upload'')), s)
               else
                 (Response 200
                    (Uploaded (UploadedCount (length fs))
                       (map (\<lambda>f. \<lparr>url = path f, filename = file_name f, size = file_size f\<rparr>)
                            fs)),
                  insert_files s i (currentOrder (max_order s i)) fs)))"

definition insert_video :: "store \<Rightarrow> int \<Rightarrow> string \<Rightarrow> store" where
  "insert_video s i videoUrl =
     (let k = next_rowid (seq_videos s) (map vid_id (apartment_videos s))
      in s\<lparr>apartment_videos :=
             apartment_videos s @ [\<lparr>vid_id = k, vid_apartment_id = i, video_url = videoUrl\<rparr>],
           seq_videos := k\<rparr>)"

definition uploadVideo :: "store \<Rightarrow> int \<Rightarrow> upload_file option \<Rightarrow> response \<times> store" where
  "uploadVideo s i f =
     (case find_apartment s i of
        None \<Rightarrow> (Response 404 (Failure ''Apartment not found'' (NoApartmentWithId i)), s)
      | Some apartment \<Rightarrow>
          (case f of
             None \<Rightarrow>
               (Response 400 (Failure ''No file uploaded'' (Msg ''Please select a video to upload'')),
                s)
           | Some v \<Rightarrow>
               (Response 200
                  (Uploaded (Msg ''Video uploaded successfully to Cloudinary'')
                     [\<lparr>url = path v, filename = file_name v, size = file_size v\<rparr>]),
                insert_video s i (path v))))"

text \<open>
  \<^verbatim>\<open>PUT /:apartmentId/images/:imageId/primary\<close>, in its two statements:
  \<^verbatim>\<open>UPDATE apartment_images SET is_primary = 0 WHERE apartment_id = ?\<close>, then
  \<^verbatim>\<open>UPDATE apartment_images SET is_primary = 1 WHERE id = ?\<close>.
\<close>

definition clear_primary :: "store \<Rightarrow> int \<Rightarrow> store" where
  "clear_primary s apartmentId =
     s\<lparr>apartment_images :=
         map (\<lambda>img. if apartment_id img = apartmentId then img\<lparr>is_primary := 0\<rparr> else img)
             (apartment_images s)\<rparr>"

definition mark_primary :: "store \<Rightarrow> int \<Rightarrow> store" where
  "mark_primary s imageId =
     s\<lparr>apartment_images :=
         map (\<lambda>img. if img_id img = imageId then img\<lparr>is_primary := 1\<rparr> else img)
             (apartment_images s)\<rparr>"

definition setPrimaryImage :: "store \<Rightarrow> int \<Rightarrow> int \<Rightarrow> response \<times> store" where
  "setPrimaryImage s apartmentId imageId =
     (case find (\<lambda>img. img_id img = imageId \<and> apartment_id img = apartmentId)
                (apartment_images s) of
        None \<Rightarrow>
          (Response 404 (Failure ''Image not found''
             (Msg ''Image does not exist or does not belong to this apartment'')), s)
      | Some found \<Rightarrow>
          (Response 200 (Success ''Primary image updated successfully''),
           mark_primary (clear_primary s apartmentId) imageId))"

section \<open>Login (src/controllers/authController.js)\<close>

text \<open>
  Two more things belong to libraries and are parameters of the handler: \<open>compare\<close>, the
  outcome of \<^verbatim>\<open>await bcrypt.compare(password, hash)\<close>, which is a boolean or an exception,
  and \<open>sign\<close>, the token \<^verbatim>\<open>jwt.sign\<close> issues for an id and a username.

  The handler runs with bcryptjs, whose \<^verbatim>\<open>compare\<close> rejects with the error "Illegal
  arguments" when the password is not a string, and otherwise tells whether the password
  belongs to the hash (\<open>matches\<close>).
\<close>

definition bcrypt_compare :: "(string \<Rightarrow> string \<Rightarrow> bool) \<Rightarrow> jsval \<Rightarrow> string \<Rightarrow> error + bool" where
  "bcrypt_compare matches pw hash =
     (case pw of JStr p \<Rightarrow> Inr (matches p hash) | _ \<Rightarrow> Inl IllegalArguments)"

text \<open>\<^verbatim>\<open>SELECT * FROM admin_users WHERE username = ?\<close> with \<^verbatim>\<open>.get(username)\<close>: the
  statement has one placeholder, the column has TEXT affinity, and NULL equals nothing.\<close>

definition find_admin :: "libs \<Rightarrow> store \<Rightarrow> jsval \<Rightarrow> error + admin_user option" where
  "find_admin L s u =
     (case bind_args 1 [Val (Some u)] of
        Inl e \<Rightarrow> Inl e
      | Inr [] \<Rightarrow> Inr None
      | Inr (b # bs) \<Rightarrow>
          Inr (find (\<lambda>a. SText (username a) = store_as L TextAffinity b) (admin_users s)))"

definition login ::
  "(jsval \<Rightarrow> string \<Rightarrow> error + bool) \<Rightarrow> libs \<Rightarrow> (int \<Rightarrow> string \<Rightarrow> string) \<Rightarrow>
     store \<Rightarrow> jsobj \<Rightarrow> response" where
  "login compare L sign s body =
     (case (getprop body ''username'', getprop body ''password'') of
        (Some u, Some p) \<Rightarrow>
          if \<not> truthy (Some u) \<or> \<not> truthy (Some p) then
            Response 400 (Failure ''Missing credentials''
              (Msg ''Username and password are required''))
          else
            (case find_admin L s u of
               Inl e \<Rightarrow> Response 500 (Failure ''Login failed'' (ExnMessage e))
             | Inr None \<Rightarrow>
                 Response 401 (Failure ''Invalid credentials''
                   (Msg ''Username or password is incorrect''))
             | Inr (Some admin) \<Rightarrow>
                 (case compare p (password admin) of
                    Inl e \<Rightarrow> Response 500 (Failure ''Login failed'' (ExnMessage e))
                  | Inr isPasswordValid \<Rightarrow>
                      if \<not> isPasswordValid then
                        Response 401 (Failure ''Invalid credentials''
                          (Msg ''Username or password is incorrect''))
                      else
                        Response 200
                          (LoggedIn ''Login successful''
                             (sign (admin_id admin) (username admin))
                             (admin_id admin) (username admin))))
      | _ \<Rightarrow>
          Response 400 (Failure ''Missing credentials''
            (Msg ''Username and password are required'')))"

text \<open>
  \<open>createDefaultAdmin\<close> (src/database/init.js) runs at the first start: when the table of
  admins is empty it inserts one admin, with the username and the password of the
  environment (or \<^verbatim>\<open>admin\<close> and \<^verbatim>\<open>admin123\<close>) and the password hashed by \<^verbatim>\<open>bcrypt.hashSync\<close>,
  a parameter here.
\<close>

definition env_or :: "string option \<Rightarrow> string \<Rightarrow> string" where
  "env_or v d = (case v of None \<Rightarrow> d | Some x \<Rightarrow> if x = [] then d else x)"

definition createDefaultAdmin ::
  "(string \<Rightarrow> string) \<Rightarrow> string option \<Rightarrow> string option \<Rightarrow> store \<Rightarrow> store" where
  "createDefaultAdmin hashSync env_username env_password s =
     (case admin_users s of
        existingAdmin # others \<Rightarrow> s
      | [] \<Rightarrow>
          s\<lparr>admin_users :=
              [\<lparr>admin_id = next_rowid 0 [],
                username = env_or env_username ''admin'',
                password = hashSync (env_or env_password ''admin123'')\<rparr>]\<rparr>)"

section \<open>Invariants of the image table\<close>

text \<open>An image counts as the primary image of apartment \<open>a\<close> when it belongs to \<open>a\<close> and
  its flag is set.\<close>

definition flagged :: "int \<Rightarrow> image \<Rightarrow> bool" where
  "flagged a img = (apartment_id img = a \<and> is_primary img \<noteq> 0)"

definition one_primary :: "store \<Rightarrow> bool" where
  "one_primary s = (\<forall>a. length (filter (flagged a) (apartment_images s)) \<le> 1)"

text \<open>\<^verbatim>\<open>id INTEGER PRIMARY KEY\<close>: no two images share a key.\<close>

definition image_keys_distinct :: "store \<Rightarrow> bool" where
  "image_keys_distinct s = distinct (map img_id (apartment_images s))"

text \<open>Sequences of image uploads and set-primary requests, run through the two routes.\<close>

datatype image_op = Upload int "upload_file list option" | SetPrimary int int

fun apply_image_op :: "image_op \<Rightarrow> store \<Rightarrow> store" where
  "apply_image_op (Upload i files) s = snd (uploadImages s i files)"
| "apply_image_op (SetPrimary a i) s = snd (setPrimaryImage s a i)"

definition run_image_ops :: "store \<Rightarrow> image_op list \<Rightarrow> store" where
  "run_image_ops s ops = fold apply_image_op ops s"

text \<open>\<^verbatim>\<open>FOREIGN KEY (apartment_id) REFERENCES apartments(id)\<close>, enforced since
  \<^verbatim>\<open>foreign_keys = ON\<close>: every image and every video belongs to a stored apartment.\<close>

definition foreign_keys_hold :: "store \<Rightarrow> bool" where
  "foreign_keys_hold s =
     (list_all (\<lambda>img. apartment_id img \<in> set (map apt_id (apartments s))) (apartment_images s)
      \<and> list_all (\<lambda>v. vid_apartment_id v \<in> set (map apt_id (apartments s)))
           (apartment_videos s))"

text \<open>The body of the specification's example, for any address, city and state.\<close>

definition test_body :: "string \<Rightarrow> string \<Rightarrow> string \<Rightarrow> jsobj" where
  "test_body addr cty st =
     [(''title'', JStr ''Test''), (''bedrooms'', JNum 2), (''bathrooms'', JNum 1),
      (''max_guests'', JNum 3), (''price_per_night'', JNum 20000),
      (''address'', JStr addr), (''city'', JStr cty), (''state'', JStr st)]"

section \<open>Example data\<close>

text \<open>Stand-ins for the platform's conversions. They agree with \<^verbatim>\<open>JSON.parse\<close> and with
  SQLite on what the examples hand to them: the texts \<^verbatim>\<open>[]\<close>, \<^verbatim>\<open>oops\<close>, \<^verbatim>\<open>0\<close> and \<^verbatim>\<open>1\<close>
  and the numbers 0 and 1.\<close>

definition toy_libs :: libs where
  "toy_libs =
     \<lparr>json_parse = (\<lambda>t. if t = ''[]'' then Some (JArr []) else None),
      num_text = (\<lambda>n. if n = 0 then ''0'' else if n = 1 then ''1'' else ''?''),
      text_num = (\<lambda>t. if t = ''0'' then Some 0 else if t = ''1'' then Some 1 else None)\<rparr>"

text \<open>A verifier that accepts one token, finds one expired, one not yet valid and one
  with a wrong signature, and takes every other token for malformed.\<close>

definition example_verify :: "string \<Rightarrow> jwt_result" where
  "example_verify t =
     (if t = ''good'' then Decoded [(''id'', JNum 1), (''username'', JStr ''admin'')]
      else if t = ''late'' then VerifyThrows ''TokenExpiredError'' ''jwt expired''
      else if t = ''early'' then VerifyThrows ''NotBeforeError'' ''jwt not active''
      else if t = ''forged'' then VerifyThrows ''JsonWebTokenError'' ''invalid signature''
      else VerifyThrows ''JsonWebTokenError'' ''jwt malformed'')"

text \<open>The request body of the specification's example, three uploaded files, and the
  stores the handlers build from the empty tables: after creating the example apartment,
  and after uploading one image to it.\<close>

definition example_body :: jsobj where
  "example_body =
     [(''title'', JStr ''Test''), (''bedrooms'', JNum 2), (''bathrooms'', JNum 1),
      (''max_guests'', JNum 3), (''price_per_night'', JNum 20000),
      (''address'', JStr ''1 Main Street''), (''city'', JStr ''Abuja''), (''state'', JStr ''FCT'')]"

definition file_a :: upload_file where
  "file_a = \<lparr>path = ''a.jpg'', file_name = ''a'', file_size = 100\<rparr>"

definition file_b :: upload_file where
  "file_b = \<lparr>path = ''b.jpg'', file_name = ''b'', file_size = 200\<rparr>"

definition file_c :: upload_file where
  "file_c = \<lparr>path = ''c.jpg'', file_name = ''c'', file_size = 300\<rparr>"

definition store_created :: store where
  "store_created = snd (createApartment toy_libs empty_tables 7 example_body)"

definition store_one_image :: store where
  "store_one_image = snd (uploadImages store_created 1 (Some [file_a]))"

definition example_ops :: "image_op list" where
  "example_ops =
     [Upload 1 (Some [file_a, file_b]), SetPrimary 1 1, SetPrimary 1 2, Upload 1 (Some [file_c])]"

text \<open>The store after the example sequence of image requests, a second apartment created
  as unavailable, and the store that holds both apartments.\<close>

definition store_after_ops :: store where
  "store_after_ops = run_image_ops store_created example_ops"

definition hidden_body :: jsobj where
  "hidden_body =
     [(''title'', JStr ''Hidden''), (''bedrooms'', JNum 1), (''bathrooms'', JNum 1),
      (''max_guests'', JNum 2), (''price_per_night'', JNum 15000),
      (''address'', JStr ''2 Side Street''), (''city'', JStr ''Lagos''), (''state'', JStr ''Lagos''),
      (''available'', JBool False)]"

definition store_two :: store where
  "store_two = snd (createApartment toy_libs store_after_ops 8 hidden_body)"

definition example_row :: apartment where
  "example_row =
     \<lparr>apt_id = 1, title = SText ''Test'', description = SNull, bedrooms = SNum 2,
      bathrooms = SNum 1, max_guests = SNum 3, price_per_night = SNum 20000,
      address = SText ''1 Main Street'', city = SText ''Abuja'', state = SText ''FCT'',
      available = SNum 1, featured = SNum 0, amenities = SJson [], created_at = 7,
      updated_at = 7\<rparr>"

definition hidden_row :: apartment where
  "hidden_row =
     \<lparr>apt_id = 2, title = SText ''Hidden'', description = SNull, bedrooms = SNum 1,
      bathrooms = SNum 1, max_guests = SNum 2, price_per_night = SNum 15000,
      address = SText ''2 Side Street'', city = SText ''Lagos'', state = SText ''Lagos'',
      available = SNum 0, featured = SNum 0, amenities = SJson [], created_at = 8,
      updated_at = 8\<rparr>"

definition example_images :: "image list" where
  "example_images =
     [\<lparr>img_id = 2, apartment_id = 1, image_url = ''b.jpg'', is_primary = 1, display_order = 1\<rparr>,
      \<lparr>img_id = 1, apartment_id = 1, image_url = ''a.jpg'', is_primary = 0, display_order = 0\<rparr>,
      \<lparr>img_id = 3, apartment_id = 1, image_url = ''c.jpg'', is_primary = 0, display_order = 2\<rparr>]"

text \<open>A body for a studio: every required field is there and none is null, and the
  number of bedrooms is 0.\<close>

definition studio_body :: jsobj where
  "studio_body =
     [(''title'', JStr ''Studio''), (''bedrooms'', JNum 0), (''bathrooms'', JNum 1),
      (''max_guests'', JNum 2), (''price_per_night'', JNum 10000),
      (''address'', JStr ''3 Back Street''), (''city'', JStr ''Abuja''), (''state'', JStr ''FCT'')]"

text \<open>Update bodies: one that names two columns of the allow-list next to the key and the
  creation time, and one that names the key only.\<close>

definition rename_body :: jsobj where
  "rename_body =
     [(''id'', JNum 99), (''created_at'', JStr ''2020-01-01''), (''title'', JStr ''Renamed''),
      (''available'', JBool False)]"

definition key_only_body :: jsobj where
  "key_only_body = [(''id'', JNum 99)]"

text \<open>A store with a video next to the images, and two file systems: one where every
  unlink fails and one where every unlink succeeds.\<close>

definition store_with_video :: store where
  "store_with_video =
     snd (uploadVideo store_two 1 (Some \<lparr>path = ''tour.mp4'', file_name = ''tour'', file_size = 5000\<rparr>))"

definition unlink_fails :: "string \<Rightarrow> bool" where
  "unlink_fails p = False"

definition unlink_works :: "string \<Rightarrow> bool" where
  "unlink_works p = True"

text \<open>A stand-in for the hashing of bcrypt, and the store after the first start with no
  environment.\<close>

definition toy_hash :: "string \<Rightarrow> string" where
  "toy_hash p = ''hashed:'' @ p"

definition toy_matches :: "string \<Rightarrow> string \<Rightarrow> bool" where
  "toy_matches p h = (h = toy_hash p)"

definition store_first_start :: store where
  "store_first_start = createDefaultAdmin toy_hash None None empty_tables"

text \<open>Two update bodies with arrays among their values, the stores they leave when they
  are sent for the example apartment, and the listing the second store shows.\<close>

definition oops_body :: jsobj where
  "oops_body =
     [(''title'', JArr [JStr ''T'', JStr ''oops'']), (''amenities'', JArr []),
      (''description'', JArr [])]"

definition nine_body :: jsobj where
  "nine_body =
     [(''bedrooms'', JArr [JNum 3, JNum 9]), (''available'', JBool False),
      (''description'', JArr [])]"

definition store_oops :: store where
  "store_oops = snd (updateApartment toy_libs store_created 8 1 oops_body)"

definition store_nine :: store where
  "store_nine = snd (updateApartment toy_libs store_created 8 1 nine_body)"

definition nine_row :: apartment where
  "nine_row =
     example_row\<lparr>description := SText ''0'', bedrooms := SNum 3, available := SNum 9,
                  updated_at := 8\<rparr>"

definition nine_listing :: listing where
  "nine_listing =
     \<lparr>row = nine_row, r_available = True, r_featured = False, r_amenities = JArr [],
      images = [], videos = []\<rparr>"

text \<open>A body whose price is the number 0, and one whose price is the text 0.\<close>

definition free_body :: jsobj where
  "free_body =
     [(''title'', JStr ''Free''), (''bedrooms'', JNum 1), (''bathrooms'', JNum 1),
      (''max_guests'', JNum 2), (''price_per_night'', JNum 0),
      (''address'', JStr ''4 Far Street''), (''city'', JStr ''Abuja''), (''state'', JStr ''FCT'')]"

definition typed_zero_body :: jsobj where
  "typed_zero_body =
     [(''title'', JStr ''Free''), (''bedrooms'', JNum 1), (''bathrooms'', JNum 1),
      (''max_guests'', JNum 2), (''price_per_night'', JStr ''0''),
      (''address'', JStr ''4 Far Street''), (''city'', JStr ''Abuja''), (''state'', JStr ''FCT'')]"

text \<open>The listings the handlers send for the two example apartments.\<close>

definition example_listing :: listing where
  "example_listing =
     \<lparr>row = example_row, r_available = True, r_featured = False, r_amenities = JArr [],
      images = example_images, videos = []\<rparr>"

definition hidden_listing :: listing where
  "hidden_listing =
     \<lparr>row = hidden_row, r_available = False, r_featured = False, r_amenities = JArr [],
      images = [], videos = []\<rparr>"

section \<open>Properties\<close>

subsection \<open>Binding the arguments of a call\<close>

lemma bind_array_grows:
  "bind_array n acc xs = Inr acc' \<Longrightarrow> length acc \<le> n \<Longrightarrow>
   length acc' \<le> n \<and> length acc \<le> length acc'"
proof (induction xs arbitrary: acc)
  case Nil
  then show ?case by simp
next
  case (Cons x xs)
  from Cons.prems(1) obtain b where b: "bind_value (Val (Some x)) = Some b"
    and small: "\<not> n \<le> length acc" and rest: "bind_array n (acc @ [b]) xs = Inr acc'"
    by (auto split: option.splits if_splits)
  from small have "length (acc @ [b]) \<le> n" by simp
  from Cons.IH[OF rest this] show ?case by simp
qed

lemma bind_from_step:
  assumes "bind_from n named acc (a # rest) = Inr bs" and "length acc \<le> n"
  shows "\<exists>named' acc'. bind_from n named' acc' rest = Inr bs \<and> length acc' \<le> n"
proof (cases a)
  case (JsonText xs)
  with assms show ?thesis
    by (auto split: if_splits intro!: exI[of _ named] exI[of _ "acc @ [SJson xs]"])
next
  case (Val v)
  show ?thesis
  proof (cases "\<exists>xs. v = Some (JArr xs)")
    case True
    then obtain xs where v: "v = Some (JArr xs)" by blast
    with Val assms(1) obtain acc' where a: "bind_array n acc xs = Inr acc'"
      and r: "bind_from n named acc' rest = Inr bs"
      by (auto split: sum.splits)
    from bind_array_grows[OF a assms(2)] r show ?thesis by blast
  next
    case False
    note not_array = this
    show ?thesis
    proof (cases "\<exists>kvs. v = Some (JObj kvs)")
      case True
      then obtain kvs where v: "v = Some (JObj kvs)" by blast
      with Val assms(1) have "bind_from n True acc rest = Inr bs"
        by (auto split: if_splits)
      with assms(2) show ?thesis by blast
    next
      case False
      with not_array Val assms(1) obtain b where "bind_value a = Some b"
        and small: "\<not> n \<le> length acc" and r: "bind_from n named (acc @ [b]) rest = Inr bs"
        by (auto split: option.splits jsval.splits if_splits)
      from small have "length (acc @ [b]) \<le> n" by simp
      with r show ?thesis by blast
    qed
  qed
qed

lemma bind_from_length:
  "bind_from n named acc args = Inr bs \<Longrightarrow> length acc \<le> n \<Longrightarrow> length bs = n"
proof (induction args arbitrary: named acc)
  case Nil
  then show ?case by (auto split: if_splits)
next
  case (Cons a rest)
  from bind_from_step[OF Cons.prems] obtain named' acc'
    where "bind_from n named' acc' rest = Inr bs" and "length acc' \<le> n" by blast
  then show ?case by (rule Cons.IH)
qed

lemma bind_args_length: "bind_args n args = Inr bs \<Longrightarrow> length bs = n"
  unfolding bind_args_def using bind_from_length[of n False "[]" args bs] by simp

text \<open>The value of the last argument, when it is a number, takes the last placeholder.\<close>

lemma bind_from_last:
  "bind_from n named acc (args @ [Val (Some (JNum q))]) = Inr bs \<Longrightarrow> length acc \<le> n \<Longrightarrow>
   bs \<noteq> [] \<and> last bs = SNum q"
proof (induction args arbitrary: named acc)
  case Nil
  then show ?case by (auto split: if_splits)
next
  case (Cons a rest)
  from Cons.prems have "bind_from n named acc (a # (rest @ [Val (Some (JNum q))])) = Inr bs"
    by simp
  from bind_from_step[OF this Cons.prems(2)] obtain named' acc'
    where "bind_from n named' acc' (rest @ [Val (Some (JNum q))]) = Inr bs"
      and "length acc' \<le> n" by blast
  then show ?case by (rule Cons.IH)
qed

lemma bind_args_route:
  "bind_args n (args @ [route_arg i]) = Inr bs \<Longrightarrow> last bs = SNum (of_int i)"
  unfolding bind_args_def route_arg_def using bind_from_last[of n False "[]" args] by simp

subsection \<open>The authentication middleware\<close>

lemma second_piece_examples:
  "second_piece ''Bearer good'' = Some ''good''"
  "second_piece ''Bearer early'' = Some ''early''"
  "second_piece ''Bearer late'' = Some ''late''"
  "second_piece ''Bearer'' = None"
  by (simp_all add: second_piece_def)

text \<open>
  Claim C8 says that the middleware answers 401 exactly when the header is absent, the
  bearer token is missing or malformed, or the token is expired, and 500 for any other
  failure of the verification. A token that is well formed and not expired but carries a
  wrong signature fails the verification with a JsonWebTokenError, like a malformed
  one, and the middleware answers it with 401, not with 500. The middleware does not
  look at the word before the token either: a header \<^verbatim>\<open>Basic\<close> with a valid token
  runs the handler.
\<close>

theorem forged_token_is_unauthorized:
  "second_piece ''Bearer forged'' = Some ''forged''
   \<and> example_verify ''forged'' = VerifyThrows ''JsonWebTokenError'' ''invalid signature''
   \<and> authenticateAdmin example_verify (Some ''Bearer forged'') (\<lambda>ctx. ctx) =
       Reject (Response 401 (Failure ''Invalid token'' (Msg ''Please login again'')))
   \<and> authenticateAdmin example_verify (Some ''Basic good'') (\<lambda>ctx. ctx) =
       Next \<lparr>ctx_id = Some (JNum 1), ctx_username = Some (JStr ''admin'')\<rparr>"
  by (simp add: authenticateAdmin_def second_piece_def example_verify_def getprop_def)

text \<open>
  Claim C8, amended. On a protected route the middleware answers 401 exactly when the
  Authorization header is absent (or empty), when the header has no token after its first
  space, or when the verification of the token throws a JsonWebTokenError (the token is
  malformed, carries a wrong signature or is invalid in another way) or a
  TokenExpiredError. Any other error of the verification is answered with 500. When the
  verification succeeds, the handler runs with the id and the username of the decoded
  payload as the request's admin.
\<close>

theorem authenticateAdmin_outcomes:
  "reply_status (authenticateAdmin verify None next) = Some 401
   \<and> (reply_status (authenticateAdmin verify (Some h) next) = Some 401 \<longleftrightarrow>
        (h = [] \<or> second_piece h = None \<or> second_piece h = Some []
         \<or> (\<exists>t m. second_piece h = Some t \<and> verify t = VerifyThrows ''JsonWebTokenError'' m)
         \<or> (\<exists>t m. second_piece h = Some t \<and> verify t = VerifyThrows ''TokenExpiredError'' m)))
   \<and> (h \<noteq> [] \<and> second_piece h = Some t \<and> t \<noteq> [] \<and> verify t = VerifyThrows n m
        \<and> n \<noteq> ''JsonWebTokenError'' \<and> n \<noteq> ''TokenExpiredError'' \<longrightarrow>
        authenticateAdmin verify (Some h) next =
          Reject (Response 500 (Failure ''Authentication failed'' (ExnMessage (Thrown n m)))))
   \<and> (h \<noteq> [] \<and> second_piece h = Some t \<and> t \<noteq> [] \<and> verify t = Decoded d \<longrightarrow>
        authenticateAdmin verify (Some h) next =
          Next (next \<lparr>ctx_id = getprop d ''id'', ctx_username = getprop d ''username''\<rparr>))"
  by (auto simp: authenticateAdmin_def split: option.splits jwt_result.splits)

theorem authenticateAdmin_outcomes_witness:
  "second_piece ''Bearer good'' = Some ''good''
   \<and> example_verify ''good'' = Decoded [(''id'', JNum 1), (''username'', JStr ''admin'')]
   \<and> authenticateAdmin example_verify (Some ''Bearer good'') (\<lambda>ctx. ctx) =
       Next \<lparr>ctx_id = Some (JNum 1), ctx_username = Some (JStr ''admin'')\<rparr>
   \<and> second_piece ''Bearer early'' = Some ''early''
   \<and> example_verify ''early'' = VerifyThrows ''NotBeforeError'' ''jwt not active''
   \<and> authenticateAdmin example_verify (Some ''Bearer early'') (\<lambda>ctx. ctx) =
       Reject (Response 500 (Failure ''Authentication failed''
         (ExnMessage (Thrown ''NotBeforeError'' ''jwt not active''))))
   \<and> reply_status (authenticateAdmin example_verify (Some ''Bearer late'') (\<lambda>ctx. ctx)) = Some 401
   \<and> reply_status (authenticateAdmin example_verify (Some ''Bearer'') (\<lambda>ctx. ctx)) = Some 401"
  using authenticateAdmin_outcomes
          [of example_verify "\<lambda>ctx. ctx" "''Bearer good''" "''good''" "''x''" "''y''"
              "[(''id'', JNum 1), (''username'', JStr ''admin'')]"]
        authenticateAdmin_outcomes
          [of example_verify "\<lambda>ctx. ctx" "''Bearer early''" "''early''" "''NotBeforeError''"
              "''jwt not active''" "[]"]
        authenticateAdmin_outcomes
          [of example_verify "\<lambda>ctx. ctx" "''Bearer late''" "''late''" "''x''" "''y''" "[]"]
        authenticateAdmin_outcomes
          [of example_verify "\<lambda>ctx. ctx" "''Bearer''" "''late''" "''x''" "''y''" "[]"]
  by (simp add: second_piece_examples example_verify_def getprop_def)

subsection \<open>Keys and flags of the image table\<close>

lemma fold_max_ge: "(seq::int) \<le> fold max ids seq \<and> (\<forall>i \<in> set ids. i \<le> fold max ids seq)"
proof (induction ids arbitrary: seq)
  case Nil
  show ?case by simp
next
  case (Cons x xs)
  from Cons.IH[of "max x seq"] show ?case by auto
qed

lemma next_rowid_fresh: "i \<in> set ids \<Longrightarrow> i < next_rowid seq ids"
  using fold_max_ge[of seq ids] by (auto simp: next_rowid_def)

lemma next_rowid_above_seq: "seq < next_rowid seq ids"
  using fold_max_ge[of seq ids] by (auto simp: next_rowid_def)

lemma insert_image_images:
  "apartment_images (insert_image s i u ord) =
     apartment_images s @
       [\<lparr>img_id = next_rowid (seq_images s) (map img_id (apartment_images s)),
         apartment_id = i, image_url = u, is_primary = 0, display_order = ord\<rparr>]"
  by (simp add: insert_image_def Let_def)

lemma insert_image_keys:
  "image_keys_distinct s \<Longrightarrow> image_keys_distinct (insert_image s i u ord)"
  using next_rowid_fresh[of _ "map img_id (apartment_images s)" "seq_images s"]
  by (auto simp: image_keys_distinct_def insert_image_images)

lemma insert_image_flagged:
  "filter (flagged a) (apartment_images (insert_image s i u ord)) =
   filter (flagged a) (apartment_images s)"
  by (simp add: insert_image_images flagged_def)

lemma insert_files_keys:
  "image_keys_distinct s \<Longrightarrow> image_keys_distinct (insert_files s i ord fs)"
  by (induction fs arbitrary: s ord) (simp_all add: insert_image_keys)

lemma insert_files_flagged:
  "filter (flagged a) (apartment_images (insert_files s i ord fs)) =
   filter (flagged a) (apartment_images s)"
  by (induction fs arbitrary: s ord) (simp_all add: insert_image_flagged)

lemma insert_files_orders:
  "map display_order (apartment_images (insert_files s i ord fs)) =
   map display_order (apartment_images s) @ map (\<lambda>k. ord + int k) [0..<length fs]"
proof (induction fs arbitrary: s ord)
  case Nil
  show ?case by simp
next
  case (Cons f fs)
  have "map (\<lambda>k. ord + int k) [0..<length (f # fs)] =
        ord # map (\<lambda>k. (ord + 1) + int k) [0..<length fs]"
    by (simp add: upt_conv_Cons map_Suc_upt[symmetric] del: upt_Suc)
  then show ?case
    by (simp add: Cons.IH insert_image_images)
qed

lemma uploadImages_keys:
  "image_keys_distinct s \<Longrightarrow> image_keys_distinct (snd (uploadImages s i files))"
  by (auto simp: uploadImages_def insert_files_keys split: option.splits)

lemma uploadImages_flagged:
  "filter (flagged a) (apartment_images (snd (uploadImages s i files))) =
   filter (flagged a) (apartment_images s)"
  by (auto simp: uploadImages_def insert_files_flagged split: option.splits)

lemma uploadImages_one_primary:
  "one_primary s \<Longrightarrow> one_primary (snd (uploadImages s i files))"
  by (simp add: one_primary_def uploadImages_flagged)

lemma distinct_key_filter_le1:
  "distinct (map img_id xs) \<Longrightarrow> length (filter (\<lambda>img. img_id img = k) xs) \<le> 1"
proof (induction xs)
  case Nil
  show ?case by simp
next
  case (Cons x xs)
  show ?case
  proof (cases "img_id x = k")
    case True
    with Cons.prems have "k \<notin> img_id ` set xs" by simp
    then have "\<forall>y \<in> set xs. img_id y \<noteq> k" by blast
    then have "filter (\<lambda>img. img_id img = k) xs = []" by (simp add: filter_empty_conv)
    with True show ?thesis by simp
  next
    case False
    with Cons show ?thesis by simp
  qed
qed

lemma length_filter_mono:
  "(\<And>x. x \<in> set xs \<Longrightarrow> P x \<Longrightarrow> Q x) \<Longrightarrow> length (filter P xs) \<le> length (filter Q xs)"
  by (induction xs) auto

lemma clear_primary_none_flagged:
  "filter (flagged a) (apartment_images (clear_primary s a)) = []"
proof -
  have "filter (flagged a)
          (map (\<lambda>img. if apartment_id img = a then img\<lparr>is_primary := 0\<rparr> else img) xs) = []"
    for xs
    by (induction xs) (simp_all add: flagged_def)
  then show ?thesis by (simp add: clear_primary_def)
qed

lemma clear_primary_others:
  "b \<noteq> a \<Longrightarrow>
   filter (flagged b) (apartment_images (clear_primary s a)) =
   filter (flagged b) (apartment_images s)"
proof -
  assume ne: "b \<noteq> a"
  have "filter (flagged b)
          (map (\<lambda>img. if apartment_id img = a then img\<lparr>is_primary := 0\<rparr> else img) xs) =
        filter (flagged b) xs" for xs
    using ne by (induction xs) (auto simp: flagged_def)
  then show ?thesis by (simp add: clear_primary_def)
qed

lemma clear_primary_one_primary: "one_primary s \<Longrightarrow> one_primary (clear_primary s a)"
  unfolding one_primary_def
proof
  fix b
  assume inv: "\<forall>a. length (filter (flagged a) (apartment_images s)) \<le> 1"
  show "length (filter (flagged b) (apartment_images (clear_primary s a))) \<le> 1"
  proof (cases "b = a")
    case True
    then show ?thesis by (simp add: clear_primary_none_flagged)
  next
    case False
    with inv show ?thesis by (simp add: clear_primary_others)
  qed
qed

lemma clear_primary_keys:
  "map img_id (apartment_images (clear_primary s a)) = map img_id (apartment_images s)"
proof -
  have "map img_id (map (\<lambda>img. if apartment_id img = a then img\<lparr>is_primary := 0\<rparr> else img) xs)
        = map img_id xs" for xs
    by (induction xs) auto
  then show ?thesis by (simp add: clear_primary_def)
qed

lemma mark_primary_keys:
  "map img_id (apartment_images (mark_primary s i)) = map img_id (apartment_images s)"
proof -
  have "map img_id (map (\<lambda>img. if img_id img = i then img\<lparr>is_primary := 1\<rparr> else img) xs)
        = map img_id xs" for xs
    by (induction xs) auto
  then show ?thesis by (simp add: mark_primary_def)
qed

lemma setPrimaryImage_one_primary:
  assumes keys: "image_keys_distinct s" and inv: "one_primary s"
  shows "one_primary (snd (setPrimaryImage s a i))"
proof (cases "find (\<lambda>img. img_id img = i \<and> apartment_id img = a) (apartment_images s)")
  case None
  with inv show ?thesis by (simp add: setPrimaryImage_def)
next
  case (Some found)
  then have found_in: "found \<in> set (apartment_images s)"
    and found_id: "img_id found = i" and found_apt: "apartment_id found = a"
    by (auto simp: find_Some_iff)
  let ?xs = "apartment_images s"
  let ?g = "\<lambda>img. if img_id img = i then img\<lparr>is_primary := 1\<rparr>
                    else if apartment_id img = a then img\<lparr>is_primary := 0\<rparr> else img"
  have "map (\<lambda>img. if img_id img = i then img\<lparr>is_primary := 1\<rparr> else img)
          (map (\<lambda>img. if apartment_id img = a then img\<lparr>is_primary := 0\<rparr> else img) xs) =
        map ?g xs" for xs
    by (induction xs) auto
  then have imgs: "apartment_images (mark_primary (clear_primary s a) i) = map ?g ?xs"
    by (simp add: mark_primary_def clear_primary_def)
  have owner: "apartment_id img = a" if "img \<in> set ?xs" "img_id img = i" for img
  proof -
    from keys have "inj_on img_id (set ?xs)"
      by (simp add: image_keys_distinct_def distinct_map)
    with that found_in found_id have "img = found" by (auto dest: inj_onD)
    with found_apt show ?thesis by simp
  qed
  have "length (filter (flagged b) (map ?g ?xs)) \<le> 1" for b
  proof (cases "b = a")
    case True
    have "length (filter (flagged b) (map ?g ?xs)) = length (filter (flagged b \<circ> ?g) ?xs)"
      by (simp add: filter_map)
    also have "\<dots> \<le> length (filter (\<lambda>img. img_id img = i) ?xs)"
      by (rule length_filter_mono) (auto simp: flagged_def True split: if_splits)
    also have "\<dots> \<le> 1"
      using keys distinct_key_filter_le1[of "apartment_images s" i]
      by (simp add: image_keys_distinct_def)
    finally show ?thesis .
  next
    case False
    have "filter (flagged b \<circ> ?g) ?xs = filter (flagged b) ?xs"
      by (rule filter_cong) (use False owner in \<open>auto simp: flagged_def\<close>)
    then have "length (filter (flagged b) (map ?g ?xs)) = length (filter (flagged b) ?xs)"
      by (simp add: filter_map)
    with inv show ?thesis by (simp add: one_primary_def)
  qed
  with Some show ?thesis
    by (simp add: setPrimaryImage_def one_primary_def imgs)
qed

lemma setPrimaryImage_keys:
  "image_keys_distinct s \<Longrightarrow> image_keys_distinct (snd (setPrimaryImage s a i))"
  by (auto simp: setPrimaryImage_def image_keys_distinct_def mark_primary_keys clear_primary_keys
      split: option.splits)

lemma apply_image_op_invariant:
  "image_keys_distinct s \<and> one_primary s \<Longrightarrow>
   image_keys_distinct (apply_image_op op s) \<and> one_primary (apply_image_op op s)"
  by (cases op)
     (simp_all add: uploadImages_keys uploadImages_one_primary setPrimaryImage_keys
        setPrimaryImage_one_primary)

lemma run_image_ops_invariant:
  "image_keys_distinct s \<and> one_primary s \<Longrightarrow>
   image_keys_distinct (run_image_ops s ops) \<and> one_primary (run_image_ops s ops)"
  unfolding run_image_ops_def
proof (induction ops arbitrary: s)
  case Nil
  then show ?case by simp
next
  case (Cons op ops)
  from Cons.prems have "image_keys_distinct (apply_image_op op s) \<and> one_primary (apply_image_op op s)"
    by (rule apply_image_op_invariant)
  then show ?case using Cons.IH by simp
qed

lemma empty_tables_invariant: "image_keys_distinct empty_tables \<and> one_primary empty_tables"
  by (simp add: image_keys_distinct_def one_primary_def empty_tables_def)

lemma example_bound:
  "bind_args 12 (create_args example_body) =
     Inr [SText ''Test'', SNull, SNum 2, SNum 1, SNum 3, SNum 20000, SText ''1 Main Street'',
          SText ''Abuja'', SText ''FCT'', SNum 1, SNum 0, SJson []]"
  by (simp add: bind_args_def create_args_def example_body_def getprop_def flag_def
      with_default_def amenities_json_def)

lemma store_created_eq:
  "store_created =
     \<lparr>apartments =
        [\<lparr>apt_id = 1, title = SText ''Test'', description = SNull, bedrooms = SNum 2,
          bathrooms = SNum 1, max_guests = SNum 3, price_per_night = SNum 20000,
          address = SText ''1 Main Street'', city = SText ''Abuja'', state = SText ''FCT'',
          available = SNum 1, featured = SNum 0, amenities = SJson [], created_at = 7,
          updated_at = 7\<rparr>],
      apartment_images = [], apartment_videos = [], admin_users = [],
      seq_apartments = 1, seq_images = 0, seq_videos = 0\<rparr>"
proof -
  have m: "\<not> missing_required example_body"
    by (simp add: missing_required_def example_body_def getprop_def)
  have w: "write_columns toy_libs
             (zip insert_columns
                [SText ''Test'', SNull, SNum 2, SNum 1, SNum 3, SNum 20000,
                 SText ''1 Main Street'', SText ''Abuja'', SText ''FCT'', SNum 1, SNum 0,
                 SJson []])
             (blank_row 1 7) =
           \<lparr>apt_id = 1, title = SText ''Test'', description = SNull, bedrooms = SNum 2,
            bathrooms = SNum 1, max_guests = SNum 3, price_per_night = SNum 20000,
            address = SText ''1 Main Street'', city = SText ''Abuja'', state = SText ''FCT'',
            available = SNum 1, featured = SNum 0, amenities = SJson [], created_at = 7,
            updated_at = 7\<rparr>"
    by (simp add: write_columns_def insert_columns_def set_column_def store_as_def
        affinity_of_def blank_row_def)
  have v: "\<not> violates_not_null
             (zip insert_columns
                [SText ''Test'', SNull, SNum 2, SNum 1, SNum 3, SNum 20000,
                 SText ''1 Main Street'', SText ''Abuja'', SText ''FCT'', SNum 1, SNum 0,
                 SJson []])"
    by (simp add: violates_not_null_def insert_columns_def not_null_columns_def)
  show ?thesis
    by (simp add: store_created_def createApartment_def m example_bound v w empty_tables_def
        next_rowid_def find_apartment_def with_media_def shape_def parse_amenities_def Let_def)
qed

lemma example_ops_images:
  "apartment_images (run_image_ops store_created example_ops) =
     [\<lparr>img_id = 1, apartment_id = 1, image_url = ''a.jpg'', is_primary = 0, display_order = 0\<rparr>,
      \<lparr>img_id = 2, apartment_id = 1, image_url = ''b.jpg'', is_primary = 1, display_order = 1\<rparr>,
      \<lparr>img_id = 3, apartment_id = 1, image_url = ''c.jpg'', is_primary = 0, display_order = 2\<rparr>]"
  by (simp add: run_image_ops_def example_ops_def store_created_eq uploadImages_def
      setPrimaryImage_def find_apartment_def max_order_def currentOrder_def insert_image_def
      next_rowid_def clear_primary_def mark_primary_def file_a_def file_b_def file_c_def Let_def)

text \<open>
  Claim C2. Take a store in which image keys are distinct (they are the primary key of the
  table) and every apartment has at most one flagged image, and run any sequence of
  image uploads and set-primary requests on it. After every prefix of the sequence every
  apartment has at most one flagged image, and so it has between the two statements of a
  set-primary request. An upload leaves the flagged images of every apartment as they
  were, since it inserts rows with the flag 0, and the first statement of set-primary
  leaves no flagged image in its apartment.
\<close>

theorem at_most_one_primary_image:
  assumes "image_keys_distinct s" and "one_primary s"
  shows "one_primary (run_image_ops s (take k ops))
         \<and> one_primary (clear_primary (run_image_ops s (take k ops)) a)
         \<and> filter (flagged b) (apartment_images (snd (uploadImages s i files))) =
             filter (flagged b) (apartment_images s)
         \<and> filter (flagged a) (apartment_images (clear_primary s a)) = []"
  using assms run_image_ops_invariant[of s "take k ops"]
  by (simp add: clear_primary_one_primary uploadImages_flagged clear_primary_none_flagged)

theorem at_most_one_primary_image_witness:
  "image_keys_distinct store_created \<and> one_primary store_created
   \<and> one_primary (run_image_ops store_created (take 4 example_ops))
   \<and> map is_primary (apartment_images (run_image_ops store_created example_ops)) = [0, 1, 0]"
proof -
  have k: "image_keys_distinct store_created"
    by (simp add: image_keys_distinct_def store_created_eq)
  have p: "one_primary store_created"
    by (simp add: one_primary_def store_created_eq)
  from at_most_one_primary_image[OF k p, of 4 example_ops 1 1 1 None]
  have "one_primary (run_image_ops store_created (take 4 example_ops))" by simp
  with k p show ?thesis by (simp add: example_ops_images)
qed

subsection \<open>The display order of uploaded images\<close>

lemma currentOrder_cases:
  "currentOrder None = 0"
  "currentOrder (Some 0) = 0"
  "m \<noteq> 0 \<Longrightarrow> currentOrder (Some m) = m + 1"
  by (simp_all add: currentOrder_def)

lemma max_order_None:
  "max_order s i = None \<longleftrightarrow> filter (\<lambda>img. apartment_id img = i) (apartment_images s) = []"
  by (cases "filter (\<lambda>img. apartment_id img = i) (apartment_images s)")
     (simp_all add: max_order_def)

lemma max_order_upper:
  assumes "max_order s i = Some m" and "img \<in> set (apartment_images s)"
    and "apartment_id img = i"
  shows "display_order img \<le> m"
proof -
  let ?ds = "map display_order (filter (\<lambda>img. apartment_id img = i) (apartment_images s))"
  from assms(2,3) have mem: "display_order img \<in> set ?ds" by auto
  from assms(1) obtain d ds where ds: "?ds = d # ds" and m: "m = fold max ds d"
    by (auto simp: max_order_def split: list.splits)
  from mem ds have "display_order img = d \<or> display_order img \<in> set ds" by simp
  with fold_max_ge[of d ds] m show ?thesis by auto
qed

lemma uploadImages_orders:
  assumes "find_apartment s i = Some a" and "fs \<noteq> []"
  shows "map display_order (apartment_images (snd (uploadImages s i (Some fs)))) =
         map display_order (apartment_images s) @
           map (\<lambda>k. currentOrder (max_order s i) + int k) [0..<length fs]"
  using assms by (simp add: uploadImages_def insert_files_orders)

lemma store_one_image_eq:
  "apartment_images store_one_image =
     [\<lparr>img_id = 1, apartment_id = 1, image_url = ''a.jpg'', is_primary = 0, display_order = 0\<rparr>]"
  by (simp add: store_one_image_def store_created_eq uploadImages_def
      find_apartment_def max_order_def currentOrder_def insert_image_def
      next_rowid_def file_a_def Let_def)

text \<open>
  Claim C10. An upload should number its images from one more than the largest display
  order of the apartment, so that a new image comes after every image stored before. The
  route takes \<^verbatim>\<open>(max_order || -1) + 1\<close>, and \<^verbatim>\<open>||\<close> treats the maximum 0 like NULL: after a
  first upload of a single image, which gets the order 0, the next upload starts at 0
  again. The two images of the apartment then share the display order 0.
\<close>

theorem upload_after_order_zero:
  "fst (uploadImages store_created 1 (Some [file_a])) =
     Response 200 (Uploaded (UploadedCount 1) [\<lparr>url = ''a.jpg'', filename = ''a'', size = 100\<rparr>])
   \<and> map display_order (apartment_images store_one_image) = [0]
   \<and> max_order store_one_image 1 = Some 0
   \<and> fst (uploadImages store_one_image 1 (Some [file_b])) =
       Response 200 (Uploaded (UploadedCount 1) [\<lparr>url = ''b.jpg'', filename = ''b'', size = 200\<rparr>])
   \<and> map display_order (apartment_images (snd (uploadImages store_one_image 1 (Some [file_b]))))
       = [0, 0]"
  by (simp add: store_one_image_def store_created_eq uploadImages_def
      find_apartment_def max_order_def currentOrder_def insert_image_def
      next_rowid_def file_a_def file_b_def Let_def)

text \<open>Away from the maximum 0 the upload continues the numbering.\<close>

lemma upload_orders_continue:
  assumes "find_apartment s i = Some a" and "fs \<noteq> []" and "max_order s i = Some m" and "m \<noteq> 0"
  shows "map display_order (apartment_images (snd (uploadImages s i (Some fs)))) =
         map display_order (apartment_images s) @ map (\<lambda>k. m + 1 + int k) [0..<length fs]"
  using assms by (simp add: uploadImages_orders currentOrder_cases)

lemma upload_orders_first:
  assumes "find_apartment s i = Some a" and "fs \<noteq> []" and "max_order s i = None"
  shows "map display_order (apartment_images (snd (uploadImages s i (Some fs)))) =
         map display_order (apartment_images s) @ map (\<lambda>k. int k) [0..<length fs]"
  using assms by (simp add: uploadImages_orders currentOrder_cases)

subsection \<open>The shape of a response\<close>

lemma with_media_Inr:
  assumes "with_media L a imgs vids = Inr l"
  shows "row l = a" and "images l = imgs" and "videos l = vids"
    and "r_available l = sql_truthy (available a)"
    and "r_featured l = sql_truthy (featured a)"
    and "parse_amenities L (amenities a) = Inr (r_amenities l)"
  using assms
  by (auto simp: with_media_def shape_def shaped.extend_def split: sum.splits)

lemma with_media_Inl:
  "with_media L a imgs vids = Inl e \<longleftrightarrow> parse_amenities L (amenities a) = Inl e"
  by (auto simp: with_media_def shape_def split: sum.splits)

lemma with_media_json:
  "amenities a = SJson xs \<Longrightarrow>
   with_media L a imgs vids =
     Inr \<lparr>row = a, r_available = sql_truthy (available a),
          r_featured = sql_truthy (featured a), r_amenities = JArr xs,
          images = imgs, videos = vids\<rparr>"
  by (simp add: with_media_def shape_def parse_amenities_def shaped.extend_def)

lemma listings_Inr:
  "listings L s rows = Inr ls \<Longrightarrow>
   map row ls = rows
   \<and> (\<forall>l \<in> set ls. images l = select_images s (apt_id (row l))
                    \<and> r_available l = sql_truthy (available (row l)))"
proof (induction rows arbitrary: ls)
  case Nil
  then show ?case by simp
next
  case (Cons a rows)
  from Cons.prems obtain l ls' where
    l: "with_media L a (select_images s (apt_id a)) (select_videos s (apt_id a)) = Inr l"
    and rest: "listings L s rows = Inr ls'" and ls: "ls = l # ls'"
    by (auto split: sum.splits)
  from Cons.IH[OF rest] with_media_Inr[OF l] ls show ?case by simp
qed

lemma listings_Inl_iff:
  "(\<exists>e. listings L s rows = Inl e) \<longleftrightarrow>
   (\<exists>a \<in> set rows. isl (parse_amenities L (amenities a)))"
proof (induction rows)
  case Nil
  show ?case by simp
next
  case (Cons a rows)
  show ?case
  proof (cases "with_media L a (select_images s (apt_id a)) (select_videos s (apt_id a))")
    case (Inl e)
    then have "isl (parse_amenities L (amenities a))" by (simp add: with_media_Inl)
    with Inl show ?thesis by simp
  next
    case (Inr l)
    then have "\<not> isl (parse_amenities L (amenities a))"
      using with_media_Inr(6)[OF Inr] by simp
    with Inr Cons.IH show ?thesis by (auto split: sum.splits)
  qed
qed

subsection \<open>The order of the images in a response\<close>

lemma select_images_sorted: "sorted (map image_key (select_images s i))"
  by (simp add: select_images_def)

lemma select_images_ordered:
  assumes "p < q" and "q < length (select_images s i)"
  shows "is_primary (select_images s i ! q) \<le> is_primary (select_images s i ! p)
         \<and> (is_primary (select_images s i ! p) = is_primary (select_images s i ! q) \<longrightarrow>
              display_order (select_images s i ! p) \<le> display_order (select_images s i ! q))"
proof -
  let ?xs = "select_images s i"
  from assms have "map image_key ?xs ! p \<le> map image_key ?xs ! q"
    using select_images_sorted[of s i] by (simp add: sorted_iff_nth_mono del: nth_map)
  with assms have "image_key (?xs ! p) \<le> image_key (?xs ! q)" by simp
  then show ?thesis by (auto simp: image_key_def less_eq_prod_def)
qed

lemma select_images_set:
  "set (select_images s i) = {img \<in> set (apartment_images s). apartment_id img = i}"
  by (auto simp: select_images_def)

lemma getApartmentById_images:
  "getApartmentById L s i = Response 200 (Apartment l) \<Longrightarrow> images l = select_images s i"
  by (auto simp: getApartmentById_def split: option.splits sum.splits dest: with_media_Inr(2))

lemma getAllApartments_images:
  "getAllApartments L s h = Response 200 (Apartments n ls) \<Longrightarrow> l \<in> set ls \<Longrightarrow>
   images l = select_images s (apt_id (row l))"
  by (auto simp: getAllApartments_def split: sum.splits dest: listings_Inr)

text \<open>
  Claim C7. In the response of get-by-id and in every listing of the response of the list
  operation, the images are ordered primary first, then by ascending display order: an
  image with the flag 1 stands before every image with the flag 0, the flag never grows
  along the list, and images with the same flag stand in ascending display order.
\<close>

theorem images_primary_first:
  assumes "getApartmentById L s i = Response 200 (Apartment l)
           \<or> (getAllApartments L s h = Response 200 (Apartments n ls) \<and> l \<in> set ls)"
    and "p < length (images l)" and "q < length (images l)"
  shows "(is_primary (images l ! p) = 1 \<and> is_primary (images l ! q) = 0 \<longrightarrow> p < q)
         \<and> (p < q \<longrightarrow> is_primary (images l ! q) \<le> is_primary (images l ! p))
         \<and> (p < q \<and> is_primary (images l ! p) = is_primary (images l ! q) \<longrightarrow>
              display_order (images l ! p) \<le> display_order (images l ! q))"
proof -
  from assms(1) obtain j where eq: "images l = select_images s j"
    using getApartmentById_images getAllApartments_images by blast
  have mono: "is_primary (images l ! q') \<le> is_primary (images l ! p')
              \<and> (is_primary (images l ! p') = is_primary (images l ! q') \<longrightarrow>
                   display_order (images l ! p') \<le> display_order (images l ! q'))"
    if "p' < q'" "q' < length (images l)" for p' q'
    using that select_images_ordered[of p' q' s j] by (simp add: eq)
  have "p < q" if "is_primary (images l ! p) = 1" "is_primary (images l ! q) = 0"
  proof (rule ccontr)
    assume "\<not> p < q"
    with that have "q < p" by (cases "p = q") auto
    with mono[of q p] assms(2) that show False by simp
  qed
  with mono[of p q] assms(3) show ?thesis by blast
qed

lemma store_after_ops_eq:
  "store_after_ops =
     \<lparr>apartments = [example_row],
      apartment_images =
        [\<lparr>img_id = 1, apartment_id = 1, image_url = ''a.jpg'', is_primary = 0, display_order = 0\<rparr>,
         \<lparr>img_id = 2, apartment_id = 1, image_url = ''b.jpg'', is_primary = 1, display_order = 1\<rparr>,
         \<lparr>img_id = 3, apartment_id = 1, image_url = ''c.jpg'', is_primary = 0, display_order = 2\<rparr>],
      apartment_videos = [], admin_users = [],
      seq_apartments = 1, seq_images = 3, seq_videos = 0\<rparr>"
  by (simp add: store_after_ops_def run_image_ops_def example_ops_def store_created_eq
      uploadImages_def example_row_def
      setPrimaryImage_def find_apartment_def max_order_def currentOrder_def insert_image_def
      next_rowid_def clear_primary_def mark_primary_def file_a_def file_b_def file_c_def Let_def)

lemma select_images_example: "select_images store_after_ops 1 = example_images"
  by (simp add: store_after_ops_eq select_images_def image_key_def example_images_def)

lemma example_row_media:
  "with_media L example_row imgs vids =
     Inr \<lparr>row = example_row, r_available = True, r_featured = False, r_amenities = JArr [],
          images = imgs, videos = vids\<rparr>"
  using with_media_json[of example_row "[]" L imgs vids] by (simp add: example_row_def)

lemma getApartmentById_example:
  "getApartmentById L store_after_ops 1 = Response 200 (Apartment example_listing)"
proof -
  have f: "find_apartment store_after_ops 1 = Some example_row"
    by (simp add: store_after_ops_eq find_apartment_def) (simp add: example_row_def)
  have v: "select_videos store_after_ops 1 = []"
    by (simp add: store_after_ops_eq select_videos_def)
  show ?thesis
    by (simp add: getApartmentById_def select_images_example f v example_row_media
        example_listing_def)
qed

theorem images_primary_first_witness:
  "getApartmentById toy_libs store_after_ops 1 = Response 200 (Apartment example_listing)
   \<and> map img_id (images example_listing) = [2, 1, 3]
   \<and> map is_primary (images example_listing) = [1, 0, 0]
   \<and> map display_order (images example_listing) = [1, 0, 2]
   \<and> display_order (images example_listing ! 1) \<le> display_order (images example_listing ! 2)"
proof -
  have len: "length (images example_listing) = 3"
    by (simp add: example_listing_def example_images_def)
  from images_primary_first[of toy_libs store_after_ops 1 example_listing None 0 "[]" 1 2]
  have "display_order (images example_listing ! 1) \<le> display_order (images example_listing ! 2)"
    by (simp add: getApartmentById_example len)
       (simp add: example_listing_def example_images_def)
  then show ?thesis
    by (simp add: getApartmentById_example)
       (simp add: example_listing_def example_images_def)
qed


subsection \<open>Creating an apartment\<close>

lemma find_append_last:
  "(\<And>y. y \<in> set xs \<Longrightarrow> \<not> P y) \<Longrightarrow> P x \<Longrightarrow> find P (xs @ [x]) = Some x"
  by (induction xs) auto

lemma find_apartment_appended:
  assumes "apt_id r = next_rowid (seq_apartments s) (map apt_id (apartments s))"
  shows "find_apartment (s\<lparr>apartments := apartments s @ [r], seq_apartments := k\<rparr>) (apt_id r)
         = Some r"
proof -
  have "\<not> apt_id y = apt_id r" if "y \<in> set (apartments s)" for y
    using next_rowid_fresh[of "apt_id y" "map apt_id (apartments s)" "seq_apartments s"] that assms
    by auto
  then show ?thesis
    by (simp add: find_apartment_def find_append_last)
qed

lemma no_media_for_fresh_key:
  assumes "foreign_keys_hold s"
    and "k = next_rowid (seq_apartments s) (map apt_id (apartments s))"
  shows "filter (\<lambda>img. apartment_id img = k) (apartment_images s) = []"
    and "filter (\<lambda>v. vid_apartment_id v = k) (apartment_videos s) = []"
proof -
  have fresh: "j \<noteq> k" if "j \<in> set (map apt_id (apartments s))" for j
    using next_rowid_fresh[OF that, of "seq_apartments s"] assms(2) by simp
  from assms(1) have "\<forall>img \<in> set (apartment_images s). apartment_id img \<noteq> k"
    using fresh by (auto simp: foreign_keys_hold_def list_all_iff)
  then show "filter (\<lambda>img. apartment_id img = k) (apartment_images s) = []"
    by (simp add: filter_empty_conv)
  from assms(1) have "\<forall>v \<in> set (apartment_videos s). vid_apartment_id v \<noteq> k"
    using fresh by (auto simp: foreign_keys_hold_def list_all_iff)
  then show "filter (\<lambda>v. vid_apartment_id v = k) (apartment_videos s) = []"
    by (simp add: filter_empty_conv)
qed

text \<open>No statement writes the key or the creation time of a row.\<close>

lemma set_column_keeps:
  "apt_id (set_column c b r) = apt_id r" "created_at (set_column c b r) = created_at r"
  by (simp_all add: set_column_def)

lemma write_columns_keeps:
  "apt_id (write_columns L cvs r) = apt_id r \<and> created_at (write_columns L cvs r) = created_at r"
  unfolding write_columns_def
  by (induction cvs arbitrary: r) (auto simp: set_column_keeps)

lemma createApartment_rejects:
  "missing_required body \<Longrightarrow>
   createApartment L s now body =
     (Response 400 (Failure ''Missing required fields''
        (Msg ''Title, bedrooms, bathrooms, max_guests, price_per_night, address, city, and state are required'')),
      s)"
  by (simp add: createApartment_def)

lemma createApartment_inserts:
  assumes "\<not> missing_required body"
    and "bind_args 12 (create_args body) = Inr bs"
    and "\<not> violates_not_null (zip insert_columns bs)"
    and "write_columns L (zip insert_columns bs)
           (blank_row (next_rowid (seq_apartments s) (map apt_id (apartments s))) now) = r"
    and "with_media L r [] [] = Inr l"
  shows "createApartment L s now body =
     (Response 201 (Created ''Apartment created successfully'' l),
      s\<lparr>apartments := apartments s @ [r], seq_apartments := apt_id r\<rparr>)"
proof -
  have k: "apt_id r = next_rowid (seq_apartments s) (map apt_id (apartments s))"
    using write_columns_keeps[of L "zip insert_columns bs"] assms(4)
    by (auto simp: blank_row_def)
  from find_apartment_appended[OF k, of "apt_id r"] assms k
  show ?thesis
    by (simp add: createApartment_def Let_def)
qed

lemma test_body_props:
  "getprop (test_body addr cty st) ''title'' = Some (JStr ''Test'')"
  "getprop (test_body addr cty st) ''description'' = None"
  "getprop (test_body addr cty st) ''bedrooms'' = Some (JNum 2)"
  "getprop (test_body addr cty st) ''bathrooms'' = Some (JNum 1)"
  "getprop (test_body addr cty st) ''max_guests'' = Some (JNum 3)"
  "getprop (test_body addr cty st) ''price_per_night'' = Some (JNum 20000)"
  "getprop (test_body addr cty st) ''address'' = Some (JStr addr)"
  "getprop (test_body addr cty st) ''city'' = Some (JStr cty)"
  "getprop (test_body addr cty st) ''state'' = Some (JStr st)"
  "getprop (test_body addr cty st) ''available'' = None"
  "getprop (test_body addr cty st) ''featured'' = None"
  "getprop (test_body addr cty st) ''amenities'' = None"
  by (simp_all add: test_body_def getprop_def)

text \<open>The row the example body writes, for the key \<open>k\<close> and the time \<open>now\<close>.\<close>

lemma test_body_bound:
  "bind_args 12 (create_args (test_body addr cty st)) =
     Inr [SText ''Test'', SNull, SNum 2, SNum 1, SNum 3, SNum 20000, SText addr, SText cty,
          SText st, SNum 1, SNum 0, SJson []]"
  by (simp add: bind_args_def create_args_def test_body_props flag_def with_default_def
      amenities_json_def)

lemma test_body_row:
  "write_columns L
     (zip insert_columns
        [SText ''Test'', SNull, SNum 2, SNum 1, SNum 3, SNum 20000, SText addr, SText cty,
         SText st, SNum 1, SNum 0, SJson []])
     (blank_row k now) =
   \<lparr>apt_id = k, title = SText ''Test'', description = SNull, bedrooms = SNum 2,
    bathrooms = SNum 1, max_guests = SNum 3, price_per_night = SNum 20000,
    address = SText addr, city = SText cty, state = SText st,
    available = SNum 1, featured = SNum 0, amenities = SJson [], created_at = now,
    updated_at = now\<rparr>"
  by (simp add: write_columns_def insert_columns_def set_column_def store_as_def
      affinity_of_def blank_row_def)

lemma test_body_accepted:
  assumes "addr \<noteq> []" and "cty \<noteq> []" and "st \<noteq> []"
  shows "\<not> missing_required (test_body addr cty st)"
    and "\<not> violates_not_null
            (zip insert_columns
               [SText ''Test'', SNull, SNum 2, SNum 1, SNum 3, SNum 20000, SText addr,
                SText cty, SText st, SNum 1, SNum 0, SJson []])"
  using assms
  by (simp_all add: missing_required_def test_body_props violates_not_null_def
      insert_columns_def not_null_columns_def)

text \<open>
  Claim C9. In a store that respects its foreign keys, creating a listing with title
  Test, 2 bedrooms, 1 bathroom, 3 guests, the price 20000 and an address, a city and a
  state (no amenities in the body) answers 201 with the new listing, and fetching the
  listing by the id that was returned answers 200 with the same row, with amenities the
  empty list, images the empty list and videos the empty list.
\<close>

theorem create_then_get_by_id:
  assumes "foreign_keys_hold s" and "addr \<noteq> []" and "cty \<noteq> []" and "st \<noteq> []"
  shows "\<exists>l g. fst (createApartment L s now (test_body addr cty st)) =
                 Response 201 (Created ''Apartment created successfully'' l)
             \<and> getApartmentById L (snd (createApartment L s now (test_body addr cty st)))
                  (apt_id (row l)) = Response 200 (Apartment g)
             \<and> row g = row l
             \<and> r_amenities g = JArr [] \<and> images g = [] \<and> videos g = []"
proof -
  let ?body = "test_body addr cty st"
  let ?k = "next_rowid (seq_apartments s) (map apt_id (apartments s))"
  let ?r = "\<lparr>apt_id = ?k, title = SText ''Test'', description = SNull, bedrooms = SNum 2,
    bathrooms = SNum 1, max_guests = SNum 3, price_per_night = SNum 20000,
    address = SText addr, city = SText cty, state = SText st,
    available = SNum 1, featured = SNum 0, amenities = SJson [], created_at = now,
    updated_at = now\<rparr>"
  let ?l = "\<lparr>row = ?r, r_available = True, r_featured = False, r_amenities = JArr [],
            images = [], videos = []\<rparr>"
  let ?s' = "s\<lparr>apartments := apartments s @ [?r], seq_apartments := ?k\<rparr>"
  have media: "with_media L ?r [] [] = Inr ?l"
    by (simp add: with_media_json)
  have created: "createApartment L s now ?body =
     (Response 201 (Created ''Apartment created successfully'' ?l), ?s')"
    using createApartment_inserts
            [of "test_body addr cty st" _ L s now ?r ?l,
             OF test_body_accepted(1)[OF assms(2-4)] test_body_bound
                test_body_accepted(2)[OF assms(2-4)] test_body_row media]
    by simp
  have found: "find_apartment ?s' ?k = Some ?r"
    using find_apartment_appended[of ?r s ?k] by simp
  have imgs: "select_images ?s' ?k = []"
    using no_media_for_fresh_key(1)[OF assms(1) refl] by (simp add: select_images_def)
  have vids: "select_videos ?s' ?k = []"
    using no_media_for_fresh_key(2)[OF assms(1) refl] by (simp add: select_videos_def)
  have got: "getApartmentById L ?s' ?k = Response 200 (Apartment ?l)"
    by (simp add: getApartmentById_def found imgs vids media)
  from created got show ?thesis by simp
qed

theorem create_then_get_by_id_witness:
  "foreign_keys_hold store_after_ops
   \<and> fst (createApartment toy_libs store_after_ops 9
            (test_body ''1 Main Street'' ''Abuja'' ''FCT'')) =
       Response 201 (Created ''Apartment created successfully''
         \<lparr>row = example_row\<lparr>apt_id := 2, created_at := 9, updated_at := 9\<rparr>,
          r_available = True, r_featured = False, r_amenities = JArr [],
          images = [], videos = []\<rparr>)
   \<and> getApartmentById toy_libs
        (snd (createApartment toy_libs store_after_ops 9
                (test_body ''1 Main Street'' ''Abuja'' ''FCT''))) 2 =
       Response 200
         (Apartment
            \<lparr>row = example_row\<lparr>apt_id := 2, created_at := 9, updated_at := 9\<rparr>,
             r_available = True, r_featured = False, r_amenities = JArr [],
             images = [], videos = []\<rparr>)"
proof -
  let ?r = "example_row\<lparr>apt_id := 2, created_at := 9, updated_at := 9\<rparr>"
  let ?l = "\<lparr>row = ?r, r_available = True, r_featured = False, r_amenities = JArr [],
            images = [], videos = []\<rparr>"
  let ?s' = "store_after_ops\<lparr>apartments := apartments store_after_ops @ [?r],
               seq_apartments := 2\<rparr>"
  have fk: "foreign_keys_hold store_after_ops"
    by (simp add: foreign_keys_hold_def store_after_ops_eq example_row_def)
  have k: "next_rowid (seq_apartments store_after_ops)
             (map apt_id (apartments store_after_ops)) = 2"
    by (simp add: store_after_ops_eq next_rowid_def example_row_def)
  have m: "with_media toy_libs ?r [] [] = Inr ?l"
    by (simp add: with_media_json example_row_def)
  have w: "write_columns toy_libs
             (zip insert_columns
                [SText ''Test'', SNull, SNum 2, SNum 1, SNum 3, SNum 20000,
                 SText ''1 Main Street'', SText ''Abuja'', SText ''FCT'', SNum 1, SNum 0,
                 SJson []])
             (blank_row
                (next_rowid (seq_apartments store_after_ops)
                   (map apt_id (apartments store_after_ops))) 9) = ?r"
    by (simp add: test_body_row k example_row_def)
  have c: "createApartment toy_libs store_after_ops 9
             (test_body ''1 Main Street'' ''Abuja'' ''FCT'') =
           (Response 201 (Created ''Apartment created successfully'' ?l), ?s')"
    using createApartment_inserts
            [of "test_body ''1 Main Street'' ''Abuja'' ''FCT''" _ toy_libs store_after_ops 9
                ?r ?l,
             OF test_body_accepted(1) test_body_bound test_body_accepted(2) w m]
    by simp
  have f: "find_apartment ?s' 2 = Some ?r"
    by (simp add: find_apartment_def store_after_ops_eq) (simp add: example_row_def)
  have g: "getApartmentById toy_libs ?s' 2 = Response 200 (Apartment ?l)"
    unfolding getApartmentById_def f
    by (simp add: select_images_def select_videos_def store_after_ops_eq m)
  from create_then_get_by_id
         [of store_after_ops "''1 Main Street''" "''Abuja''" "''FCT''" toy_libs 9, OF fk]
  show ?thesis
    by (simp add: fk c g)
qed

lemma createApartment_status_400:
  "status (fst (createApartment L s now body)) = 400 \<longleftrightarrow> missing_required body"
  by (simp add: createApartment_def Let_def split: sum.splits option.splits)

text \<open>The values \<^verbatim>\<open>!field\<close> takes for no value: \<^verbatim>\<open>undefined\<close>, \<^verbatim>\<open>null\<close>, the empty
  string, \<^verbatim>\<open>false\<close> and the number 0.\<close>

lemma falsy_values:
  "\<not> truthy v \<longleftrightarrow>
     v = None \<or> v = Some JNull \<or> v = Some (JStr []) \<or> v = Some (JBool False)
     \<or> v = Some (JNum 0)"
  by (cases v rule: truthy.cases) auto

lemma missing_required_iff:
  "missing_required body \<longleftrightarrow>
     list_ex (\<lambda>k. getprop body k = None \<or> getprop body k = Some JNull
                  \<or> getprop body k = Some (JStr []) \<or> getprop body k = Some (JBool False)
                  \<or> getprop body k = Some (JNum 0)) required_fields"
  unfolding missing_required_def required_fields_def list_ex_Nil_iff list_ex_Cons_iff falsy_values
  by blast

text \<open>
  Claim C3 says that the create operation answers 400 if and only if a required field is
  missing or null. The handler tests the fields with \<^verbatim>\<open>!field\<close>, which holds of the number
  0 too: the body of a studio, with every required field present and not null and 0
  bedrooms, is answered with 400.
\<close>

theorem create_rejects_studio:
  "getprop studio_body ''title'' = Some (JStr ''Studio'')
   \<and> getprop studio_body ''bedrooms'' = Some (JNum 0)
   \<and> getprop studio_body ''bathrooms'' = Some (JNum 1)
   \<and> getprop studio_body ''max_guests'' = Some (JNum 2)
   \<and> getprop studio_body ''price_per_night'' = Some (JNum 10000)
   \<and> getprop studio_body ''address'' = Some (JStr ''3 Back Street'')
   \<and> getprop studio_body ''city'' = Some (JStr ''Abuja'')
   \<and> getprop studio_body ''state'' = Some (JStr ''FCT'')
   \<and> createApartment toy_libs empty_tables 7 studio_body =
       (Response 400 (Failure ''Missing required fields''
          (Msg ''Title, bedrooms, bathrooms, max_guests, price_per_night, address, city, and state are required'')),
        empty_tables)"
  by (simp add: studio_body_def getprop_def createApartment_def missing_required_def)

text \<open>
  The same test refuses a listing whose price is the number 0, although every required
  field of the body is there; the price sent as the text \<^verbatim>\<open>"0"\<close> passes the test and is
  stored as the number 0. The form of the dashboard starts the price at 0 and accepts it
  (\<^verbatim>\<open>min="0"\<close>), and it asks for at least 1 bedroom, bathroom and guest (\<^verbatim>\<open>min="1"\<close>).
\<close>

lemma create_with_price_zero:
  "getprop free_body ''price_per_night'' = Some (JNum 0)
   \<and> status (fst (createApartment toy_libs empty_tables 7 free_body)) = 400
   \<and> getprop typed_zero_body ''price_per_night'' = Some (JStr ''0'')
   \<and> status (fst (createApartment toy_libs empty_tables 7 typed_zero_body)) = 201
   \<and> map price_per_night (apartments (snd (createApartment toy_libs empty_tables 7 typed_zero_body)))
       = [SNum 0]"
proof -
  have a: "getprop free_body ''price_per_night'' = Some (JNum 0)"
    by (simp add: free_body_def getprop_def)
  have b: "status (fst (createApartment toy_libs empty_tables 7 free_body)) = 400"
    by (simp add: createApartment_status_400 missing_required_def free_body_def getprop_def)
  have c: "getprop typed_zero_body ''price_per_night'' = Some (JStr ''0'')"
    by (simp add: typed_zero_body_def getprop_def)
  have m: "\<not> missing_required typed_zero_body"
    by (simp add: missing_required_def typed_zero_body_def getprop_def)
  have bs: "bind_args 12 (create_args typed_zero_body) =
     Inr [SText ''Free'', SNull, SNum 1, SNum 1, SNum 2, SText ''0'', SText ''4 Far Street'',
          SText ''Abuja'', SText ''FCT'', SNum 1, SNum 0, SJson []]"
    by (simp add: bind_args_def create_args_def typed_zero_body_def getprop_def flag_def
        with_default_def amenities_json_def)
  have v: "\<not> violates_not_null
            (zip insert_columns
               [SText ''Free'', SNull, SNum 1, SNum 1, SNum 2, SText ''0'',
                SText ''4 Far Street'', SText ''Abuja'', SText ''FCT'', SNum 1, SNum 0,
                SJson []])"
    by (simp add: violates_not_null_def insert_columns_def not_null_columns_def)
  have w: "write_columns toy_libs
             (zip insert_columns
                [SText ''Free'', SNull, SNum 1, SNum 1, SNum 2, SText ''0'',
                 SText ''4 Far Street'', SText ''Abuja'', SText ''FCT'', SNum 1, SNum 0,
                 SJson []])
             (blank_row
                (next_rowid (seq_apartments empty_tables) (map apt_id (apartments empty_tables)))
                7) =
           \<lparr>apt_id = 1, title = SText ''Free'', description = SNull, bedrooms = SNum 1,
            bathrooms = SNum 1, max_guests = SNum 2, price_per_night = SNum 0,
            address = SText ''4 Far Street'', city = SText ''Abuja'', state = SText ''FCT'',
            available = SNum 1, featured = SNum 0, amenities = SJson [], created_at = 7,
            updated_at = 7\<rparr>"
    by (simp add: write_columns_def insert_columns_def set_column_def store_as_def
        affinity_of_def blank_row_def toy_libs_def empty_tables_def next_rowid_def)
  from createApartment_inserts[OF m bs v w with_media_json, of "[]"]
  have "createApartment toy_libs empty_tables 7 typed_zero_body =
     (Response 201 (Created ''Apartment created successfully''
        \<lparr>row = \<lparr>apt_id = 1, title = SText ''Free'', description = SNull, bedrooms = SNum 1,
            bathrooms = SNum 1, max_guests = SNum 2, price_per_night = SNum 0,
            address = SText ''4 Far Street'', city = SText ''Abuja'', state = SText ''FCT'',
            available = SNum 1, featured = SNum 0, amenities = SJson [], created_at = 7,
            updated_at = 7\<rparr>,
          r_available = True, r_featured = False, r_amenities = JArr [],
          images = [], videos = []\<rparr>),
      empty_tables\<lparr>apartments := apartments empty_tables @
          [\<lparr>apt_id = 1, title = SText ''Free'', description = SNull, bedrooms = SNum 1,
            bathrooms = SNum 1, max_guests = SNum 2, price_per_night = SNum 0,
            address = SText ''4 Far Street'', city = SText ''Abuja'', state = SText ''FCT'',
            available = SNum 1, featured = SNum 0, amenities = SJson [], created_at = 7,
            updated_at = 7\<rparr>],
        seq_apartments := 1\<rparr>)"
    by simp
  then have d: "status (fst (createApartment toy_libs empty_tables 7 typed_zero_body)) = 201"
    and e: "map price_per_night
              (apartments (snd (createApartment toy_libs empty_tables 7 typed_zero_body)))
            = [SNum 0]"
    by (simp_all add: empty_tables_def)
  from a b c d e show ?thesis by simp
qed

text \<open>
  Claim C3, amended. The create operation answers 400 whenever one of the required fields
  title, bedrooms, bathrooms, max_guests, price_per_night, address, city and state is
  missing from the body, null, the empty string or \<^verbatim>\<open>false\<close>. It answers 400 only when one
  of these fields is missing, null, the empty string, \<^verbatim>\<open>false\<close> or the number 0: a 400 for
  the number 0 is what the handler does, and it is not promised here. Whenever the operation
  answers 400 the store is unchanged: no row is written.
\<close>

theorem create_validates_required_fields:
  "(list_ex (\<lambda>k. getprop body k = None \<or> getprop body k = Some JNull
                 \<or> getprop body k = Some (JStr []) \<or> getprop body k = Some (JBool False))
      required_fields \<longrightarrow>
      status (fst (createApartment L s now body)) = 400)
   \<and> (status (fst (createApartment L s now body)) = 400 \<longrightarrow>
        list_ex (\<lambda>k. getprop body k = None \<or> getprop body k = Some JNull
                   \<or> getprop body k = Some (JStr []) \<or> getprop body k = Some (JBool False)
                   \<or> getprop body k = Some (JNum 0))
          required_fields)
   \<and> (status (fst (createApartment L s now body)) = 400 \<longrightarrow>
        snd (createApartment L s now body) = s)"
proof -
  have a: "status (fst (createApartment L s now body)) = 400"
    if "list_ex (\<lambda>k. getprop body k = None \<or> getprop body k = Some JNull
                 \<or> getprop body k = Some (JStr []) \<or> getprop body k = Some (JBool False))
          required_fields"
  proof -
    from that have "list_ex (\<lambda>k. getprop body k = None \<or> getprop body k = Some JNull
                  \<or> getprop body k = Some (JStr []) \<or> getprop body k = Some (JBool False)
                  \<or> getprop body k = Some (JNum 0)) required_fields"
      unfolding list_ex_iff by blast
    then show ?thesis
      by (simp only: createApartment_status_400 missing_required_iff)
  qed
  have b: "list_ex (\<lambda>k. getprop body k = None \<or> getprop body k = Some JNull
                   \<or> getprop body k = Some (JStr []) \<or> getprop body k = Some (JBool False)
                   \<or> getprop body k = Some (JNum 0))
          required_fields"
    if "status (fst (createApartment L s now body)) = 400"
    using that by (simp only: createApartment_status_400 missing_required_iff)
  have c: "snd (createApartment L s now body) = s"
    if "status (fst (createApartment L s now body)) = 400"
    using that by (simp add: createApartment_status_400 createApartment_rejects)
  from a b c show ?thesis by blast
qed

theorem create_validates_required_fields_witness:
  "list_ex (\<lambda>k. getprop [(''title'', JNull)] k = None \<or> getprop [(''title'', JNull)] k = Some JNull
               \<or> getprop [(''title'', JNull)] k = Some (JStr [])
               \<or> getprop [(''title'', JNull)] k = Some (JBool False))
      required_fields
   \<and> status (fst (createApartment toy_libs store_created 8 [(''title'', JNull)])) = 400
   \<and> snd (createApartment toy_libs store_created 8 [(''title'', JNull)]) = store_created
   \<and> status (fst (createApartment toy_libs empty_tables 7 studio_body)) = 400
   \<and> list_ex (\<lambda>k. getprop studio_body k = None \<or> getprop studio_body k = Some JNull
               \<or> getprop studio_body k = Some (JStr [])
               \<or> getprop studio_body k = Some (JBool False)
               \<or> getprop studio_body k = Some (JNum 0))
      required_fields"
proof -
  have n: "list_ex (\<lambda>k. getprop [(''title'', JNull)] k = None
               \<or> getprop [(''title'', JNull)] k = Some JNull
               \<or> getprop [(''title'', JNull)] k = Some (JStr [])
               \<or> getprop [(''title'', JNull)] k = Some (JBool False))
      required_fields"
    by (simp add: required_fields_def getprop_def)
  have z: "status (fst (createApartment toy_libs empty_tables 7 studio_body)) = 400"
    by (simp add: createApartment_def missing_required_def studio_body_def getprop_def)
  from create_validates_required_fields[of "[(''title'', JNull)]" toy_libs store_created 8]
       create_validates_required_fields[of studio_body toy_libs empty_tables 7]
       n z
  show ?thesis by blast
qed

subsection \<open>The list operation\<close>

lemma isAdmin_iff: "isAdmin h \<longleftrightarrow> (\<exists>t. h = Some t \<and> startsWith t ''Bearer'')"
  by (cases h) (auto simp: isAdmin_def startsWith_def)

lemma selected_set:
  "set (selected s h) =
     (if isAdmin h then set (apartments s)
      else {a \<in> set (apartments s). available a = SNum 1})"
  by (auto simp: selected_def newest_first_def)

lemma selected_mset:
  "mset (selected s h) =
     (if isAdmin h then mset (apartments s)
      else mset (filter (\<lambda>a. available a = SNum 1) (apartments s)))"
  by (simp add: selected_def newest_first_def)

lemma getAllApartments_status:
  "status (getAllApartments L s h) = 500 \<longleftrightarrow>
     (\<exists>a \<in> set (selected s h). isl (parse_amenities L (amenities a)))"
  "status (getAllApartments L s h) = 200 \<longleftrightarrow>
     \<not> (\<exists>a \<in> set (selected s h). isl (parse_amenities L (amenities a)))"
  using listings_Inl_iff[of L s "selected s h"]
  by (auto simp: getAllApartments_def split: sum.splits)

lemma getAllApartments_rows:
  assumes "getAllApartments L s h = Response 200 (Apartments n ls)"
  shows "n = length ls" and "map row ls = selected s h"
    and "\<forall>l \<in> set ls. r_available l = sql_truthy (available (row l))"
  using assms by (auto simp: getAllApartments_def split: sum.splits dest: listings_Inr)

lemma parse_amenities_written:
  "cell = SNull \<or> (\<exists>xs. cell = SJson xs) \<Longrightarrow> \<not> isl (parse_amenities L cell)"
  by (auto simp: parse_amenities_def)

text \<open>Two updates of the example apartment whose bodies hold arrays: the driver spreads
  them over the placeholders of the statement.\<close>

lemma oops_update:
  "updateApartment toy_libs store_created 8 1 oops_body =
     (Response 500 (Failure ''Failed to update apartment'' (ExnMessage SyntaxError)),
      store_created\<lparr>apartments :=
        [example_row\<lparr>title := SText ''T'', description := SJson [],
                      amenities := SText ''oops'', updated_at := 8\<rparr>]\<rparr>)"
proof -
  have f: "find_apartment store_created 1 = Some example_row"
    by (simp add: store_created_eq find_apartment_def example_row_def)
  have u: "updateFields oops_body =
             [(''title'', Val (Some (JArr [JStr ''T'', JStr ''oops'']))),
              (''amenities'', JsonText []),
              (''description'', Val (Some (JArr [])))]"
    by (simp add: updateFields_def oops_body_def allowedFields_def update_value_def
        amenities_json_def)
  have b: "bind_args (Suc (Suc (Suc (Suc 0))))
             [Val (Some (JArr [JStr ''T'', JStr ''oops''])), JsonText [],
              Val (Some (JArr [])), route_arg 1] =
           Inr [SText ''T'', SText ''oops'', SJson [], SNum 1]"
    by (simp add: bind_args_def route_arg_def)
  have r: "run_update toy_libs store_created 8 (SNum 1)
             [(''title'', SText ''T''), (''amenities'', SText ''oops''),
              (''description'', SJson [])] =
           store_created\<lparr>apartments :=
             [example_row\<lparr>title := SText ''T'', description := SJson [],
                           amenities := SText ''oops'', updated_at := 8\<rparr>]\<rparr>"
    by (simp add: run_update_def write_columns_def set_column_def store_as_def affinity_of_def
        store_created_eq example_row_def)
  have g: "find_apartment
             (store_created\<lparr>apartments :=
                [example_row\<lparr>title := SText ''T'', description := SJson [],
                              amenities := SText ''oops'', updated_at := 8\<rparr>]\<rparr>) 1 =
           Some (example_row\<lparr>title := SText ''T'', description := SJson [],
                              amenities := SText ''oops'', updated_at := 8\<rparr>)"
    by (simp add: find_apartment_def example_row_def)
  have p: "shape toy_libs
             (example_row\<lparr>title := SText ''T'', description := SJson [],
                           amenities := SText ''oops'', updated_at := 8\<rparr>) = Inl SyntaxError"
    by (simp add: shape_def parse_amenities_def toy_libs_def)
  show ?thesis
    by (simp add: updateApartment_def f u b r g p violates_not_null_def not_null_columns_def)
qed

lemma nine_update:
  "updateApartment toy_libs store_created 8 1 nine_body =
     (Response 200 (Updated ''Apartment updated successfully''
        \<lparr>row = nine_row, r_available = True, r_featured = False, r_amenities = JArr []\<rparr>),
      store_created\<lparr>apartments := [nine_row]\<rparr>)"
proof -
  have f: "find_apartment store_created 1 = Some example_row"
    by (simp add: store_created_eq find_apartment_def example_row_def)
  have u: "updateFields nine_body =
             [(''bedrooms'', Val (Some (JArr [JNum 3, JNum 9]))),
              (''available'', Val (Some (JNum 0))),
              (''description'', Val (Some (JArr [])))]"
    by (simp add: updateFields_def nine_body_def allowedFields_def update_value_def flag_def)
  have b: "bind_args (Suc (Suc (Suc (Suc 0))))
             [Val (Some (JArr [JNum 3, JNum 9])), Val (Some (JNum 0)),
              Val (Some (JArr [])), route_arg 1] =
           Inr [SNum 3, SNum 9, SNum 0, SNum 1]"
    by (simp add: bind_args_def route_arg_def)
  have r: "run_update toy_libs store_created 8 (SNum 1)
             [(''bedrooms'', SNum 3), (''available'', SNum 9), (''description'', SNum 0)] =
           store_created\<lparr>apartments := [nine_row]\<rparr>"
    by (simp add: run_update_def write_columns_def set_column_def store_as_def affinity_of_def
        store_created_eq example_row_def nine_row_def toy_libs_def)
  have g: "find_apartment (store_created\<lparr>apartments := [nine_row]\<rparr>) 1 = Some nine_row"
    by (simp add: find_apartment_def nine_row_def example_row_def)
  have p: "shape toy_libs nine_row =
           Inr \<lparr>row = nine_row, r_available = True, r_featured = False, r_amenities = JArr []\<rparr>"
    by (simp add: shape_def parse_amenities_def nine_row_def example_row_def)
  show ?thesis
    by (simp add: updateApartment_def f u b r g p violates_not_null_def not_null_columns_def)
qed

text \<open>
  Claim C1 says that the list operation answers every request with the stored listings:
  all of them for a request with a Bearer header, those with \<open>available = true\<close>
  otherwise. The update handler passes the values of the body to the driver as they are,
  and the driver spreads arrays over the placeholders. One update with arrays in its body
  leaves the text \<^verbatim>\<open>oops\<close> in the column \<open>amenities\<close> of the example apartment, and from
  then on the list operation answers 500 to every request. Another one leaves the number
  9 in the column \<open>available\<close>: the listing is shown with \<open>available = true\<close> to a request
  with a Bearer header, and it is missing in the answer to a request without one.
\<close>

theorem list_fails_or_hides:
  "fst (updateApartment toy_libs store_created 8 1 oops_body) =
     Response 500 (Failure ''Failed to update apartment'' (ExnMessage SyntaxError))
   \<and> length (apartments store_oops) = 1
   \<and> getAllApartments toy_libs store_oops (Some ''Bearer x'') =
       Response 500 (Failure ''Failed to fetch apartments'' (ExnMessage SyntaxError))
   \<and> getAllApartments toy_libs store_oops None =
       Response 500 (Failure ''Failed to fetch apartments'' (ExnMessage SyntaxError))
   \<and> fst (updateApartment toy_libs store_created 8 1 nine_body) =
       Response 200 (Updated ''Apartment updated successfully''
         \<lparr>row = nine_row, r_available = True, r_featured = False, r_amenities = JArr []\<rparr>)
   \<and> getAllApartments toy_libs store_nine (Some ''Bearer x'') =
       Response 200 (Apartments 1 [nine_listing])
   \<and> r_available nine_listing = True
   \<and> getAllApartments toy_libs store_nine None = Response 200 (Apartments 0 [])"
proof -
  have o: "store_oops =
           store_created\<lparr>apartments :=
             [example_row\<lparr>title := SText ''T'', description := SJson [],
                           amenities := SText ''oops'', updated_at := 8\<rparr>]\<rparr>"
    by (simp add: store_oops_def oops_update)
  have n: "store_nine = store_created\<lparr>apartments := [nine_row]\<rparr>"
    by (simp add: store_nine_def nine_update)
  have bad: "with_media toy_libs
               (example_row\<lparr>title := SText ''T'', description := SJson [],
                             amenities := SText ''oops'', updated_at := 8\<rparr>) imgs vids =
             Inl SyntaxError" for imgs vids
    by (simp add: with_media_def shape_def parse_amenities_def toy_libs_def)
  have av: "available (example_row\<lparr>title := SText ''T'', description := SJson [],
                             amenities := SText ''oops'', updated_at := 8\<rparr>) = SNum 1"
    by (simp add: example_row_def)
  have good: "with_media toy_libs nine_row [] [] = Inr nine_listing"
    using with_media_json[of nine_row "[]" toy_libs "[]" "[]"]
    by (simp add: nine_row_def example_row_def nine_listing_def)
  have a9: "available nine_row = SNum 9" "apt_id nine_row = 1"
    by (simp_all add: nine_row_def example_row_def)
  show ?thesis
    by (simp add: oops_update nine_update)
       (simp add: o n getAllApartments_def selected_def isAdmin_def startsWith_def
          newest_first_def bad av good a9 select_images_def select_videos_def store_created_eq
          nine_listing_def)
qed

text \<open>
  Claim C1, amended. The list operation answers 500 when the stored amenities of a
  listing it selects cannot be parsed, and 200 otherwise; it always answers 200 on a
  store whose amenities are NULL or were written by \<^verbatim>\<open>JSON.stringify\<close>. When it answers
  200 to a request whose Authorization header starts with Bearer (nothing of the token is
  verified), the listings are the stored apartments, all of them, the unavailable ones
  too. When it answers 200 to another request, the listings are exactly the stored
  apartments whose column \<open>available\<close> is 1, and every one of them has
  \<open>available = true\<close>. The availability a listing shows is the truth value of the stored
  column.
\<close>

theorem list_shows_unavailable_to_bearer_only:
  "(status (getAllApartments L s h) = 200 \<or> status (getAllApartments L s h) = 500)
   \<and> ((\<exists>t. h = Some t \<and> startsWith t ''Bearer'') \<longrightarrow>
        (status (getAllApartments L s h) = 500 \<longleftrightarrow>
           (\<exists>a \<in> set (apartments s). isl (parse_amenities L (amenities a)))))
   \<and> (\<not> (\<exists>t. h = Some t \<and> startsWith t ''Bearer'') \<longrightarrow>
        (status (getAllApartments L s h) = 500 \<longleftrightarrow>
           (\<exists>a \<in> set (apartments s).
              available a = SNum 1 \<and> isl (parse_amenities L (amenities a)))))
   \<and> ((\<forall>a \<in> set (apartments s). amenities a = SNull \<or> (\<exists>xs. amenities a = SJson xs)) \<longrightarrow>
        status (getAllApartments L s h) = 200)
   \<and> (getAllApartments L s h = Response 200 (Apartments n ls) \<longrightarrow>
        n = length ls
        \<and> ((\<exists>t. h = Some t \<and> startsWith t ''Bearer'') \<longrightarrow>
              mset (map row ls) = mset (apartments s))
        \<and> (\<not> (\<exists>t. h = Some t \<and> startsWith t ''Bearer'') \<longrightarrow>
              mset (map row ls) = mset (filter (\<lambda>a. available a = SNum 1) (apartments s))
              \<and> (\<forall>l \<in> set ls. r_available l))
        \<and> (\<forall>l \<in> set ls. r_available l = sql_truthy (available (row l))))"
proof -
  have either: "status (getAllApartments L s h) = 200 \<or> status (getAllApartments L s h) = 500"
    using getAllApartments_status[of L s h] by blast
  have admin: "(\<exists>t. h = Some t \<and> startsWith t ''Bearer'') \<longrightarrow>
        (status (getAllApartments L s h) = 500 \<longleftrightarrow>
           (\<exists>a \<in> set (apartments s). isl (parse_amenities L (amenities a))))"
    by (simp add: getAllApartments_status selected_set isAdmin_iff[symmetric])
  have public: "\<not> (\<exists>t. h = Some t \<and> startsWith t ''Bearer'') \<longrightarrow>
        (status (getAllApartments L s h) = 500 \<longleftrightarrow>
           (\<exists>a \<in> set (apartments s).
              available a = SNum 1 \<and> isl (parse_amenities L (amenities a))))"
    by (auto simp: getAllApartments_status selected_set isAdmin_iff[symmetric])
  have written: "(\<forall>a \<in> set (apartments s). amenities a = SNull \<or> (\<exists>xs. amenities a = SJson xs))
        \<longrightarrow> status (getAllApartments L s h) = 200"
    using parse_amenities_written[of _ L]
    by (auto simp: getAllApartments_status selected_set)
  have ok: "getAllApartments L s h = Response 200 (Apartments n ls) \<longrightarrow>
        n = length ls
        \<and> ((\<exists>t. h = Some t \<and> startsWith t ''Bearer'') \<longrightarrow>
              mset (map row ls) = mset (apartments s))
        \<and> (\<not> (\<exists>t. h = Some t \<and> startsWith t ''Bearer'') \<longrightarrow>
              mset (map row ls) = mset (filter (\<lambda>a. available a = SNum 1) (apartments s))
              \<and> (\<forall>l \<in> set ls. r_available l))
        \<and> (\<forall>l \<in> set ls. r_available l = sql_truthy (available (row l)))"
  proof
    assume resp: "getAllApartments L s h = Response 200 (Apartments n ls)"
    note rows = getAllApartments_rows[OF resp]
    have shown: "r_available l" if "\<not> isAdmin h" "l \<in> set ls" for l
    proof -
      from that(2) have "row l \<in> set (map row ls)" by simp
      with that(1) rows(2) have "available (row l) = SNum 1" by (simp add: selected_set)
      with rows(3) that(2) show ?thesis by simp
    qed
    from rows(2) have "mset (map row ls) = mset (selected s h)" by simp
    with rows(1,3) shown show "n = length ls
        \<and> ((\<exists>t. h = Some t \<and> startsWith t ''Bearer'') \<longrightarrow>
              mset (map row ls) = mset (apartments s))
        \<and> (\<not> (\<exists>t. h = Some t \<and> startsWith t ''Bearer'') \<longrightarrow>
              mset (map row ls) = mset (filter (\<lambda>a. available a = SNum 1) (apartments s))
              \<and> (\<forall>l \<in> set ls. r_available l))
        \<and> (\<forall>l \<in> set ls. r_available l = sql_truthy (available (row l)))"
      unfolding isAdmin_iff[symmetric] by (simp add: selected_mset)
  qed
  show ?thesis
    by (intro conjI) (rule either admin public written ok)+
qed

lemma store_two_eq:
  "store_two =
     \<lparr>apartments = [example_row, hidden_row],
      apartment_images =
        [\<lparr>img_id = 1, apartment_id = 1, image_url = ''a.jpg'', is_primary = 0, display_order = 0\<rparr>,
         \<lparr>img_id = 2, apartment_id = 1, image_url = ''b.jpg'', is_primary = 1, display_order = 1\<rparr>,
         \<lparr>img_id = 3, apartment_id = 1, image_url = ''c.jpg'', is_primary = 0, display_order = 2\<rparr>],
      apartment_videos = [], admin_users = [],
      seq_apartments = 2, seq_images = 3, seq_videos = 0\<rparr>"
proof -
  have m: "\<not> missing_required hidden_body"
    by (simp add: missing_required_def hidden_body_def getprop_def)
  have bs: "bind_args 12 (create_args hidden_body) =
     Inr [SText ''Hidden'', SNull, SNum 1, SNum 1, SNum 2, SNum 15000, SText ''2 Side Street'',
          SText ''Lagos'', SText ''Lagos'', SNum 0, SNum 0, SJson []]"
    by (simp add: bind_args_def create_args_def hidden_body_def getprop_def flag_def
        with_default_def amenities_json_def)
  have v: "\<not> violates_not_null
            (zip insert_columns
               [SText ''Hidden'', SNull, SNum 1, SNum 1, SNum 2, SNum 15000,
                SText ''2 Side Street'', SText ''Lagos'', SText ''Lagos'', SNum 0, SNum 0,
                SJson []])"
    by (simp add: violates_not_null_def insert_columns_def not_null_columns_def)
  have w: "write_columns toy_libs
             (zip insert_columns
                [SText ''Hidden'', SNull, SNum 1, SNum 1, SNum 2, SNum 15000,
                 SText ''2 Side Street'', SText ''Lagos'', SText ''Lagos'', SNum 0, SNum 0,
                 SJson []])
             (blank_row
                (next_rowid (seq_apartments store_after_ops)
                   (map apt_id (apartments store_after_ops))) 8) = hidden_row"
    by (simp add: write_columns_def insert_columns_def set_column_def store_as_def
        affinity_of_def blank_row_def store_after_ops_eq next_rowid_def example_row_def
        hidden_row_def)
  have l: "with_media toy_libs hidden_row [] [] = Inr hidden_listing"
    by (simp add: with_media_json hidden_row_def hidden_listing_def)
  from createApartment_inserts[OF m bs v w l]
  show ?thesis
    by (simp add: store_two_def store_after_ops_eq hidden_row_def)
qed

lemma select_images_two:
  "select_images store_two 1 = example_images" "select_images store_two 2 = []"
  "select_videos store_two 1 = []" "select_videos store_two 2 = []"
  by (simp_all add: store_two_eq select_images_def select_videos_def image_key_def
      example_images_def)

lemma example_listings:
  "with_media toy_libs example_row example_images [] = Inr example_listing"
  "with_media toy_libs hidden_row [] [] = Inr hidden_listing"
  by (simp_all add: with_media_json example_row_def hidden_row_def example_listing_def
      hidden_listing_def)

lemma list_public_example:
  "getAllApartments toy_libs store_two None = Response 200 (Apartments 1 [example_listing])"
proof -
  have "filter (\<lambda>a. available a = SNum 1) (apartments store_two) = [example_row]"
    by (simp add: store_two_eq example_row_def hidden_row_def)
  moreover have "apt_id example_row = 1" by (simp add: example_row_def)
  ultimately show ?thesis
    by (simp add: getAllApartments_def selected_def isAdmin_def newest_first_def
        select_images_two example_listings)
qed

lemma list_admin_example:
  "getAllApartments toy_libs store_two (Some ''Bearer anything'') =
     Response 200 (Apartments 2 [hidden_listing, example_listing])"
proof -
  have "newest_first (apartments store_two) = [hidden_row, example_row]"
    by (simp add: store_two_eq newest_first_def example_row_def hidden_row_def)
  moreover have "apt_id example_row = 1" "apt_id hidden_row = 2"
    by (simp_all add: example_row_def hidden_row_def)
  ultimately show ?thesis
    by (simp add: getAllApartments_def selected_def isAdmin_def startsWith_def
        select_images_two example_listings)
qed

theorem list_shows_unavailable_to_bearer_only_witness:
  "startsWith ''Bearer anything'' ''Bearer''
   \<and> getAllApartments toy_libs store_two (Some ''Bearer anything'') =
       Response 200 (Apartments 2 [hidden_listing, example_listing])
   \<and> mset (map row [hidden_listing, example_listing]) = mset (apartments store_two)
   \<and> r_available hidden_listing = False
   \<and> getAllApartments toy_libs store_two None = Response 200 (Apartments 1 [example_listing])
   \<and> r_available example_listing = True"
proof -
  have b: "\<exists>t. Some ''Bearer anything'' = Some t \<and> startsWith t ''Bearer''"
    by (simp add: startsWith_def)
  have n: "\<not> (\<exists>t. (None :: string option) = Some t \<and> startsWith t ''Bearer'')"
    by simp
  from list_shows_unavailable_to_bearer_only
         [of toy_libs store_two "Some ''Bearer anything''" 2 "[hidden_listing, example_listing]"]
       list_shows_unavailable_to_bearer_only
         [of toy_libs store_two None 1 "[example_listing]"]
       b n list_admin_example list_public_example
  have "mset (map row [hidden_listing, example_listing]) = mset (apartments store_two)"
    and "\<forall>l \<in> set [example_listing]. r_available l"
    by blast+
  then show ?thesis
    by (simp add: list_admin_example list_public_example startsWith_def hidden_listing_def)
qed

subsection \<open>Updating an apartment\<close>

lemma updateFields_allowed_only:
  "updateFields (filter (\<lambda>(key, v). key \<in> set allowedFields) updates) = updateFields updates"
  by (simp add: updateFields_def)

lemma updateFields_empty_iff:
  "updateFields updates = [] \<longleftrightarrow> list_all (\<lambda>(key, v). key \<notin> set allowedFields) updates"
  by (auto simp: updateFields_def filter_empty_conv list_all_iff)

lemma run_update_keys:
  "map apt_id (apartments (run_update L s now w cvs)) = map apt_id (apartments s)"
  "map created_at (apartments (run_update L s now w cvs)) = map created_at (apartments s)"
  by (simp_all add: run_update_def write_columns_keeps)

lemma run_update_others:
  "filter (\<lambda>a. apt_id a \<noteq> i) (apartments (run_update L s now (SNum (of_int i)) cvs)) =
   filter (\<lambda>a. apt_id a \<noteq> i) (apartments s)"
proof -
  have "filter (\<lambda>a. apt_id a \<noteq> i)
          (map (\<lambda>a. if SNum (of_int (apt_id a)) = SNum (of_int i)
                    then (write_columns L cvs a)\<lparr>updated_at := now\<rparr> else a) xs) =
        filter (\<lambda>a. apt_id a \<noteq> i) xs" for xs
    by (induction xs) (simp_all add: write_columns_keeps)
  then show ?thesis by (simp add: run_update_def)
qed

lemma run_update_tables:
  "apartment_images (run_update L s now w cvs) = apartment_images s"
  "apartment_videos (run_update L s now w cvs) = apartment_videos s"
  "admin_users (run_update L s now w cvs) = admin_users s"
  "seq_apartments (run_update L s now w cvs) = seq_apartments s"
  by (simp_all add: run_update_def)

text \<open>The statement runs on the row of the route: the id is the last argument of the call,
  so it is bound to the last placeholder whatever the values before it are.\<close>

lemma updateApartment_store:
  "snd (updateApartment L s now i updates) = s
   \<or> (\<exists>cvs. snd (updateApartment L s now i updates) =
              run_update L s now (SNum (of_int i)) cvs)"
proof (cases "bind_args (length (updateFields updates) + 1)
                (map snd (updateFields updates) @ [route_arg i])")
  case (Inl e)
  then show ?thesis
    by (simp add: updateApartment_def split: option.splits)
next
  case (Inr bs)
  from bind_args_route[OF Inr] have "last bs = SNum (of_int i)" .
  with Inr show ?thesis
    by (auto simp: updateApartment_def Let_def split: option.splits sum.splits)
qed

text \<open>
  Claim C4. When no apartment has the given id, the update answers 404 and leaves the
  store as it is. When the apartment exists, the update answers 400 exactly when the body
  names no field of the allow-list, and then leaves the store as it is. Fields outside
  the allow-list are never written: the update does what it does on the body cut down to
  the allow-list, and it changes no key, no creation time, no row of another apartment
  and no row of another table.
\<close>

theorem update_guards:
  "(find_apartment s i = None \<longrightarrow>
      updateApartment L s now i updates =
        (Response 404 (Failure ''Apartment not found'' (NoApartmentWithId i)), s))
   \<and> (find_apartment s i \<noteq> None
        \<and> list_all (\<lambda>(key, v). key \<notin> set allowedFields) updates \<longrightarrow>
        updateApartment L s now i updates =
          (Response 400 (Failure ''No valid fields to update''
             (Msg ''Provide at least one valid field to update'')), s))
   \<and> (find_apartment s i \<noteq> None \<longrightarrow>
        (status (fst (updateApartment L s now i updates)) = 400 \<longleftrightarrow>
           list_all (\<lambda>(key, v). key \<notin> set allowedFields) updates))
   \<and> updateApartment L s now i updates =
       updateApartment L s now i (filter (\<lambda>(key, v). key \<in> set allowedFields) updates)
   \<and> map apt_id (apartments (snd (updateApartment L s now i updates))) = map apt_id (apartments s)
   \<and> map created_at (apartments (snd (updateApartment L s now i updates))) =
       map created_at (apartments s)
   \<and> filter (\<lambda>a. apt_id a \<noteq> i) (apartments (snd (updateApartment L s now i updates))) =
       filter (\<lambda>a. apt_id a \<noteq> i) (apartments s)
   \<and> apartment_images (snd (updateApartment L s now i updates)) = apartment_images s
   \<and> apartment_videos (snd (updateApartment L s now i updates)) = apartment_videos s
   \<and> admin_users (snd (updateApartment L s now i updates)) = admin_users s"
proof -
  have absent: "find_apartment s i = None \<longrightarrow>
      updateApartment L s now i updates =
        (Response 404 (Failure ''Apartment not found'' (NoApartmentWithId i)), s)"
    by (simp add: updateApartment_def)
  have no_field: "find_apartment s i \<noteq> None
        \<and> list_all (\<lambda>(key, v). key \<notin> set allowedFields) updates \<longrightarrow>
        updateApartment L s now i updates =
          (Response 400 (Failure ''No valid fields to update''
             (Msg ''Provide at least one valid field to update'')), s)"
    by (auto simp: updateApartment_def updateFields_empty_iff[symmetric])
  have exact: "find_apartment s i \<noteq> None \<longrightarrow>
        (status (fst (updateApartment L s now i updates)) = 400 \<longleftrightarrow>
           list_all (\<lambda>(key, v). key \<notin> set allowedFields) updates)"
    by (auto simp: updateApartment_def updateFields_empty_iff[symmetric] Let_def
        split: option.splits sum.splits)
  have same: "updateApartment L s now i updates =
       updateApartment L s now i (filter (\<lambda>(key, v). key \<in> set allowedFields) updates)"
    unfolding updateApartment_def updateFields_allowed_only ..
  from updateApartment_store[of L s now i updates]
  have keys: "map apt_id (apartments (snd (updateApartment L s now i updates))) = map apt_id (apartments s)"
    and times: "map created_at (apartments (snd (updateApartment L s now i updates))) =
       map created_at (apartments s)"
    and others: "filter (\<lambda>a. apt_id a \<noteq> i) (apartments (snd (updateApartment L s now i updates))) =
       filter (\<lambda>a. apt_id a \<noteq> i) (apartments s)"
    and tables: "apartment_images (snd (updateApartment L s now i updates)) = apartment_images s"
       "apartment_videos (snd (updateApartment L s now i updates)) = apartment_videos s"
       "admin_users (snd (updateApartment L s now i updates)) = admin_users s"
    by (auto simp: run_update_keys run_update_others run_update_tables)
  show ?thesis
    by (intro conjI) (rule absent no_field exact same keys times others tables)+
qed

lemma find_apartment_two:
  "find_apartment store_two 1 = Some example_row"
  "find_apartment store_two 2 = Some hidden_row"
  "find_apartment store_two 5 = None"
  by (simp_all add: find_apartment_def store_two_eq example_row_def hidden_row_def)

lemma updateFields_examples:
  "updateFields key_only_body = []"
  "updateFields rename_body =
     [(''title'', Val (Some (JStr ''Renamed''))), (''available'', Val (Some (JNum 0)))]"
  by (simp_all add: updateFields_def key_only_body_def rename_body_def allowedFields_def
      update_value_def flag_def)

lemma update_rename_example:
  "updateApartment toy_libs store_two 10 1 rename_body =
     (Response 200 (Updated ''Apartment updated successfully''
        \<lparr>row = example_row\<lparr>title := SText ''Renamed'', available := SNum 0, updated_at := 10\<rparr>,
         r_available = False, r_featured = False, r_amenities = JArr []\<rparr>),
      store_two\<lparr>apartments :=
        [example_row\<lparr>title := SText ''Renamed'', available := SNum 0, updated_at := 10\<rparr>,
         hidden_row]\<rparr>)"
proof -
  have b: "bind_args (Suc (Suc (Suc 0)))
             [Val (Some (JStr ''Renamed'')), Val (Some (JNum 0)), route_arg 1] =
           Inr [SText ''Renamed'', SNum 0, SNum 1]"
    by (simp add: bind_args_def route_arg_def)
  have r: "run_update toy_libs store_two 10 (SNum 1)
             [(''title'', SText ''Renamed''), (''available'', SNum 0)] =
           store_two\<lparr>apartments :=
             [example_row\<lparr>title := SText ''Renamed'', available := SNum 0, updated_at := 10\<rparr>,
              hidden_row]\<rparr>"
    by (simp add: run_update_def write_columns_def set_column_def store_as_def affinity_of_def
        store_two_eq)
       (simp add: example_row_def hidden_row_def)
  have f: "find_apartment
             (store_two\<lparr>apartments :=
               [example_row\<lparr>title := SText ''Renamed'', available := SNum 0, updated_at := 10\<rparr>,
                hidden_row]\<rparr>) 1 =
           Some (example_row\<lparr>title := SText ''Renamed'', available := SNum 0, updated_at := 10\<rparr>)"
    by (simp add: find_apartment_def example_row_def)
  have p: "shape toy_libs
             (example_row\<lparr>title := SText ''Renamed'', available := SNum 0, updated_at := 10\<rparr>) =
           Inr \<lparr>row = example_row\<lparr>title := SText ''Renamed'', available := SNum 0,
                                   updated_at := 10\<rparr>,
                r_available = False, r_featured = False, r_amenities = JArr []\<rparr>"
    by (simp add: shape_def parse_amenities_def example_row_def)
  show ?thesis
    by (simp add: updateApartment_def find_apartment_two updateFields_examples b r f p
        violates_not_null_def not_null_columns_def)
qed

theorem update_guards_witness:
  "find_apartment store_two 5 = None
   \<and> updateApartment toy_libs store_two 10 5 rename_body =
       (Response 404 (Failure ''Apartment not found'' (NoApartmentWithId 5)), store_two)
   \<and> find_apartment store_two 1 = Some example_row
   \<and> list_all (\<lambda>(key, v). key \<notin> set allowedFields) key_only_body
   \<and> updateApartment toy_libs store_two 10 1 key_only_body =
       (Response 400 (Failure ''No valid fields to update''
          (Msg ''Provide at least one valid field to update'')), store_two)
   \<and> updateApartment toy_libs store_two 10 1 rename_body =
       (Response 200 (Updated ''Apartment updated successfully''
          \<lparr>row = example_row\<lparr>title := SText ''Renamed'', available := SNum 0, updated_at := 10\<rparr>,
           r_available = False, r_featured = False, r_amenities = JArr []\<rparr>),
        store_two\<lparr>apartments :=
          [example_row\<lparr>title := SText ''Renamed'', available := SNum 0, updated_at := 10\<rparr>,
           hidden_row]\<rparr>)
   \<and> apt_id (example_row\<lparr>title := SText ''Renamed'', available := SNum 0, updated_at := 10\<rparr>) = 1
   \<and> created_at (example_row\<lparr>title := SText ''Renamed'', available := SNum 0, updated_at := 10\<rparr>) = 7"
proof -
  have k: "list_all (\<lambda>(key, v). key \<notin> set allowedFields) key_only_body"
    by (simp add: key_only_body_def allowedFields_def)
  from update_guards[of store_two 5 toy_libs 10 rename_body]
  have a: "updateApartment toy_libs store_two 10 5 rename_body =
       (Response 404 (Failure ''Apartment not found'' (NoApartmentWithId 5)), store_two)"
    by (simp add: find_apartment_two)
  from update_guards[of store_two 1 toy_libs 10 key_only_body] k
  have b: "updateApartment toy_libs store_two 10 1 key_only_body =
       (Response 400 (Failure ''No valid fields to update''
          (Msg ''Provide at least one valid field to update'')), store_two)"
    by (simp add: find_apartment_two)
  from a b k show ?thesis
    by (simp add: find_apartment_two update_rename_example) (simp add: example_row_def)
qed

subsection \<open>Deleting an apartment\<close>

lemma delete_cascade_effect:
  "find_apartment (delete_cascade s i) i = None"
  "filter (\<lambda>img. apartment_id img = i) (apartment_images (delete_cascade s i)) = []"
  "filter (\<lambda>v. vid_apartment_id v = i) (apartment_videos (delete_cascade s i)) = []"
  by (simp_all add: delete_cascade_def find_apartment_def find_None_iff filter_empty_conv)

lemma delete_cascade_others:
  "j \<noteq> i \<Longrightarrow> find_apartment (delete_cascade s i) j = find_apartment s j"
  "j \<noteq> i \<Longrightarrow> filter (\<lambda>img. apartment_id img = j) (apartment_images (delete_cascade s i)) =
               filter (\<lambda>img. apartment_id img = j) (apartment_images s)"
  "j \<noteq> i \<Longrightarrow> filter (\<lambda>v. vid_apartment_id v = j) (apartment_videos (delete_cascade s i)) =
               filter (\<lambda>v. vid_apartment_id v = j) (apartment_videos s)"
proof -
  assume ne: "j \<noteq> i"
  have "find (\<lambda>a. apt_id a = j) (filter (\<lambda>a. apt_id a \<noteq> i) xs) = find (\<lambda>a. apt_id a = j) xs"
    for xs
    using ne by (induction xs) auto
  then show "find_apartment (delete_cascade s i) j = find_apartment s j"
    by (simp add: delete_cascade_def find_apartment_def)
  show "filter (\<lambda>img. apartment_id img = j) (apartment_images (delete_cascade s i)) =
        filter (\<lambda>img. apartment_id img = j) (apartment_images s)"
    using ne by (auto simp: delete_cascade_def intro: filter_cong)
  show "filter (\<lambda>v. vid_apartment_id v = j) (apartment_videos (delete_cascade s i)) =
        filter (\<lambda>v. vid_apartment_id v = j) (apartment_videos s)"
    using ne by (auto simp: delete_cascade_def intro: filter_cong)
qed

lemma deleteApartment_store:
  "find_apartment s i = Some a \<Longrightarrow>
   fst (deleteApartment s unlink i) = Response 200 (Success ''Apartment deleted successfully'')
   \<and> fst (snd (deleteApartment s unlink i)) = delete_cascade s i"
  by (simp add: deleteApartment_def Let_def)

text \<open>
  Claim C5. When no apartment has the given id, the delete operation answers 404 and
  leaves the store as it is. When the apartment exists, it answers 200, and afterwards the
  store holds neither the apartment nor any image or video of it, while the other
  apartments keep their rows, images and videos. The store it leaves is the same whatever
  the file system does, also when every unlink fails: the failures go to the log.
\<close>

theorem delete_cascades:
  "(find_apartment s i = None \<longrightarrow>
      deleteApartment s unlink i =
        (Response 404 (Failure ''Apartment not found'' (NoApartmentWithId i)), s, []))
   \<and> (find_apartment s i \<noteq> None \<longrightarrow>
        fst (deleteApartment s unlink i) = Response 200 (Success ''Apartment deleted successfully'')
        \<and> find_apartment (fst (snd (deleteApartment s unlink i))) i = None
        \<and> filter (\<lambda>img. apartment_id img = i)
             (apartment_images (fst (snd (deleteApartment s unlink i)))) = []
        \<and> filter (\<lambda>v. vid_apartment_id v = i)
             (apartment_videos (fst (snd (deleteApartment s unlink i)))) = []
        \<and> fst (snd (deleteApartment s unlink i)) = fst (snd (deleteApartment s (\<lambda>p. False) i))
        \<and> (j \<noteq> i \<longrightarrow>
             find_apartment (fst (snd (deleteApartment s unlink i))) j = find_apartment s j
             \<and> filter (\<lambda>img. apartment_id img = j)
                  (apartment_images (fst (snd (deleteApartment s unlink i)))) =
                 filter (\<lambda>img. apartment_id img = j) (apartment_images s)
             \<and> filter (\<lambda>v. vid_apartment_id v = j)
                  (apartment_videos (fst (snd (deleteApartment s unlink i)))) =
                 filter (\<lambda>v. vid_apartment_id v = j) (apartment_videos s)))"
proof (cases "find_apartment s i")
  case None
  then show ?thesis by (simp add: deleteApartment_def)
next
  case (Some a)
  from deleteApartment_store[OF Some, of unlink] deleteApartment_store[OF Some, of "\<lambda>p. False"]
  show ?thesis
    by (simp add: Some delete_cascade_effect delete_cascade_others)
qed


lemma store_with_video_eq:
  "store_with_video =
     store_two\<lparr>apartment_videos :=
                 [\<lparr>vid_id = 1, vid_apartment_id = 1, video_url = ''tour.mp4''\<rparr>],
               seq_videos := 1\<rparr>"
  by (simp add: store_with_video_def uploadVideo_def find_apartment_two insert_video_def)
     (simp add: store_two_eq next_rowid_def)

lemma delete_example:
  "deleteApartment store_with_video unlink_fails 1 =
     (Response 200 (Success ''Apartment deleted successfully''),
      \<lparr>apartments = [hidden_row], apartment_images = [], apartment_videos = [],
       admin_users = [], seq_apartments = 2, seq_images = 3, seq_videos = 1\<rparr>,
      [''a.jpg'', ''b.jpg'', ''c.jpg'', ''tour.mp4''])"
proof -
  have f: "find_apartment store_with_video 1 = Some example_row"
    by (simp add: store_with_video_eq find_apartment_def store_two_eq example_row_def)
  show ?thesis
    by (simp add: deleteApartment_def f Let_def)
       (simp add: store_with_video_eq store_two_eq delete_cascade_def unlink_fails_def
          example_row_def hidden_row_def)
qed

theorem delete_cascades_witness:
  "find_apartment store_with_video 5 = None
   \<and> deleteApartment store_with_video unlink_fails 5 =
       (Response 404 (Failure ''Apartment not found'' (NoApartmentWithId 5)), store_with_video, [])
   \<and> find_apartment store_with_video 1 = Some example_row
   \<and> length (apartment_images store_with_video) = 3
   \<and> length (apartment_videos store_with_video) = 1
   \<and> deleteApartment store_with_video unlink_fails 1 =
       (Response 200 (Success ''Apartment deleted successfully''),
        \<lparr>apartments = [hidden_row], apartment_images = [], apartment_videos = [],
         admin_users = [], seq_apartments = 2, seq_images = 3, seq_videos = 1\<rparr>,
        [''a.jpg'', ''b.jpg'', ''c.jpg'', ''tour.mp4''])
   \<and> fst (snd (deleteApartment store_with_video unlink_works 1)) =
       \<lparr>apartments = [hidden_row], apartment_images = [], apartment_videos = [],
        admin_users = [], seq_apartments = 2, seq_images = 3, seq_videos = 1\<rparr>"
proof -
  have n: "find_apartment store_with_video 5 = None"
    by (simp add: store_with_video_eq find_apartment_def store_two_eq example_row_def
        hidden_row_def)
  have f: "find_apartment store_with_video 1 = Some example_row"
    by (simp add: store_with_video_eq find_apartment_def store_two_eq example_row_def)
  from delete_cascades[of store_with_video 5 unlink_fails 1] n
  have a: "deleteApartment store_with_video unlink_fails 5 =
       (Response 404 (Failure ''Apartment not found'' (NoApartmentWithId 5)), store_with_video, [])"
    by simp
  from delete_cascades[of store_with_video 1 unlink_works 2] f
  have b: "fst (snd (deleteApartment store_with_video unlink_works 1)) =
           fst (snd (deleteApartment store_with_video unlink_fails 1))"
    by (simp add: unlink_fails_def[abs_def])
  from n f a b show ?thesis
    by (simp add: delete_example) (simp add: store_with_video_eq store_two_eq)
qed

subsection \<open>The handlers keep the foreign keys\<close>

lemma foreign_keys_hold_iff:
  "foreign_keys_hold s \<longleftrightarrow>
     (\<forall>img \<in> set (apartment_images s). apartment_id img \<in> apt_id ` set (apartments s))
     \<and> (\<forall>v \<in> set (apartment_videos s). vid_apartment_id v \<in> apt_id ` set (apartments s))"
  by (simp add: foreign_keys_hold_def list_all_iff)

lemma find_apartment_Some_key: "find_apartment s i = Some a \<Longrightarrow> i \<in> apt_id ` set (apartments s)"
  by (auto simp: find_apartment_def find_Some_iff)

lemma insert_files_owner:
  "set (apartment_images (insert_files s i ord fs)) \<subseteq>
     set (apartment_images s) \<union> {img. apartment_id img = i}"
proof (induction fs arbitrary: s ord)
  case Nil
  show ?case by simp
next
  case (Cons f fs)
  from Cons.IH[of "insert_image s i (path f) ord" "ord + 1"] show ?case
    by (auto simp: insert_image_images)
qed

lemma insert_files_apartments:
  "apartments (insert_files s i ord fs) = apartments s"
  "apartment_videos (insert_files s i ord fs) = apartment_videos s"
  by (induction fs arbitrary: s ord) (simp_all add: insert_image_def Let_def)

lemma createApartment_store:
  "snd (createApartment L s now body) = s
   \<or> (\<exists>r k. snd (createApartment L s now body) =
               s\<lparr>apartments := apartments s @ [r], seq_apartments := k\<rparr>)"
  by (auto simp: createApartment_def Let_def split: option.splits sum.splits)

lemma createApartment_foreign_keys:
  "foreign_keys_hold s \<Longrightarrow> foreign_keys_hold (snd (createApartment L s now body))"
  using createApartment_store[of L s now body] by (auto simp: foreign_keys_hold_iff)

lemma updateApartment_foreign_keys:
  assumes "foreign_keys_hold s"
  shows "foreign_keys_hold (snd (updateApartment L s now i updates))"
proof -
  have "set (map apt_id (apartments (run_update L s now w cvs))) = set (map apt_id (apartments s))"
    for w cvs
    by (simp only: run_update_keys)
  then have "foreign_keys_hold (run_update L s now w cvs)" for w cvs
    using assms by (simp add: foreign_keys_hold_def run_update_tables)
  with assms updateApartment_store[of L s now i updates] show ?thesis by auto
qed

lemma deleteApartment_foreign_keys:
  "foreign_keys_hold s \<Longrightarrow> foreign_keys_hold (fst (snd (deleteApartment s unlink i)))"
  by (auto simp: deleteApartment_def delete_cascade_def foreign_keys_hold_iff Let_def
      split: option.splits)

lemma uploadImages_foreign_keys:
  assumes "foreign_keys_hold s"
  shows "foreign_keys_hold (snd (uploadImages s i files))"
proof (cases "find_apartment s i")
  case None
  with assms show ?thesis by (simp add: uploadImages_def)
next
  case (Some a)
  then have own: "i \<in> apt_id ` set (apartments s)" by (rule find_apartment_Some_key)
  have "foreign_keys_hold (insert_files s i ord fs)" for ord fs
    using assms own insert_files_owner[of s i ord fs]
    by (auto simp: foreign_keys_hold_iff insert_files_apartments)
  with assms Some show ?thesis
    by (auto simp: uploadImages_def split: option.splits)
qed

lemma uploadVideo_foreign_keys:
  "foreign_keys_hold s \<Longrightarrow> foreign_keys_hold (snd (uploadVideo s i f))"
  by (auto simp: uploadVideo_def insert_video_def foreign_keys_hold_iff Let_def
      split: option.splits dest: find_apartment_Some_key)

lemma setPrimaryImage_foreign_keys:
  "foreign_keys_hold s \<Longrightarrow> foreign_keys_hold (snd (setPrimaryImage s a i))"
  by (auto simp: setPrimaryImage_def mark_primary_def clear_primary_def foreign_keys_hold_iff
      split: option.splits)

lemma empty_tables_foreign_keys: "foreign_keys_hold empty_tables"
  by (simp add: foreign_keys_hold_def empty_tables_def)


text \<open>The other handlers keep the invariants of the image table as well.\<close>

lemma createApartment_images:
  "apartment_images (snd (createApartment L s now body)) = apartment_images s"
  using createApartment_store[of L s now body] by auto

lemma updateApartment_images:
  "apartment_images (snd (updateApartment L s now i updates)) = apartment_images s"
  using updateApartment_store[of L s now i updates] by (auto simp: run_update_tables)

lemma uploadVideo_images:
  "apartment_images (snd (uploadVideo s i f)) = apartment_images s"
  by (simp add: uploadVideo_def insert_video_def Let_def split: option.splits)

lemma deleteApartment_image_invariant:
  assumes "image_keys_distinct s" and "one_primary s"
  shows "image_keys_distinct (fst (snd (deleteApartment s unlink i)))
         \<and> one_primary (fst (snd (deleteApartment s unlink i)))"
proof (cases "find_apartment s i")
  case None
  with assms show ?thesis by (simp add: deleteApartment_def)
next
  case (Some a)
  let ?xs = "apartment_images s"
  have imgs: "apartment_images (fst (snd (deleteApartment s unlink i))) =
              filter (\<lambda>img. apartment_id img \<noteq> i) ?xs"
    using Some by (simp add: deleteApartment_def delete_cascade_def Let_def)
  have "length (filter (flagged b) (filter (\<lambda>img. apartment_id img \<noteq> i) ?xs))
          \<le> length (filter (flagged b) ?xs)" for b
    by (simp only: filter_filter) (rule length_filter_mono, simp)
  with assms(2) have "one_primary (fst (snd (deleteApartment s unlink i)))"
    unfolding one_primary_def imgs using order_trans by blast
  moreover from assms(1) have "image_keys_distinct (fst (snd (deleteApartment s unlink i)))"
    by (simp add: image_keys_distinct_def imgs distinct_map_filter)
  ultimately show ?thesis by simp
qed

subsection \<open>Login\<close>

lemma store_first_start_admins:
  "admin_users store_first_start =
     [\<lparr>admin_id = 1, username = ''admin'', password = ''hashed:admin123''\<rparr>]"
  by (simp add: store_first_start_def createDefaultAdmin_def empty_tables_def env_or_def
      next_rowid_def toy_hash_def)

text \<open>
  Whenever the comparison finds that the password does not belong to the hash, the answer
  is the one an unknown username gets.
\<close>

lemma login_same_answer:
  assumes "getprop b1 ''username'' = Some u1" and "truthy (Some u1)"
    and "getprop b1 ''password'' = Some p1" and "truthy (Some p1)"
    and "find_admin L s u1 = Inr None"
    and "getprop b2 ''username'' = Some u2" and "truthy (Some u2)"
    and "getprop b2 ''password'' = Some p2" and "truthy (Some p2)"
    and "find_admin L s u2 = Inr (Some a)"
    and "compare p2 (password a) = Inr False"
  shows "login compare L sign s b1 =
           Response 401 (Failure ''Invalid credentials'' (Msg ''Username or password is incorrect''))
         \<and> login compare L sign s b2 = login compare L sign s b1"
  using assms by (simp add: login_def)

lemma login_wrong_string_example:
  "login (bcrypt_compare toy_matches) toy_libs sign store_first_start
     [(''username'', JStr ''ghost''), (''password'', JStr ''guess'')] =
     Response 401 (Failure ''Invalid credentials'' (Msg ''Username or password is incorrect''))
   \<and> login (bcrypt_compare toy_matches) toy_libs sign store_first_start
       [(''username'', JStr ''admin''), (''password'', JStr ''guess'')] =
       Response 401 (Failure ''Invalid credentials'' (Msg ''Username or password is incorrect''))"
  by (simp add: login_def getprop_def find_admin_def bind_args_def store_as_def bcrypt_compare_def store_first_start_admins
      toy_matches_def toy_hash_def)

lemma login_success_example:
  "login (bcrypt_compare toy_matches) toy_libs sign store_first_start
     [(''username'', JStr ''admin''), (''password'', JStr ''admin123'')] =
   Response 200 (LoggedIn ''Login successful'' (sign 1 ''admin'') 1 ''admin'')"
  by (simp add: login_def getprop_def find_admin_def bind_args_def store_as_def bcrypt_compare_def store_first_start_admins
      toy_matches_def toy_hash_def)

text \<open>When the comparison throws, the \<^verbatim>\<open>catch\<close> of the handler answers 500, and that
  happens only after the username was found.\<close>

lemma login_when_compare_throws:
  assumes "getprop b ''username'' = Some u" and "truthy (Some u)"
    and "getprop b ''password'' = Some p" and "truthy (Some p)"
    and "find_admin L s u = Inr (Some a)"
    and "compare p (password a) = Inl e"
  shows "login compare L sign s b = Response 500 (Failure ''Login failed'' (ExnMessage e))"
  using assms by (simp add: login_def)

text \<open>
  Claim C6. A login with an unknown username and a login with a known username and a
  password that does not belong to the stored hash should get the same answer, 401 with
  the same body, so that the caller does not learn whether a username exists. The handler
  tests the password of the body for truthiness only and passes it to \<^verbatim>\<open>bcrypt.compare\<close>
  as it is. For a password that is a number the comparison rejects and the handler
  answers 500: the body with the password 12345 gets 401 with an unknown username and
  500 with the username of the admin.
\<close>

theorem login_reveals_username_to_numeric_password:
  "login (bcrypt_compare matches) L sign store_first_start
     [(''username'', JStr ''ghost''), (''password'', JNum 12345)] =
     Response 401 (Failure ''Invalid credentials'' (Msg ''Username or password is incorrect''))
   \<and> login (bcrypt_compare matches) L sign store_first_start
       [(''username'', JStr ''admin''), (''password'', JNum 12345)] =
       Response 500 (Failure ''Login failed'' (ExnMessage IllegalArguments))"
  by (simp add: login_def getprop_def find_admin_def bind_args_def store_as_def bcrypt_compare_def store_first_start_admins)

theorem login_reveals_username_to_numeric_password_witness:
  "login (bcrypt_compare toy_matches) toy_libs (\<lambda>i u. ''token'') store_first_start
     [(''username'', JStr ''ghost''), (''password'', JNum 12345)] =
     Response 401 (Failure ''Invalid credentials'' (Msg ''Username or password is incorrect''))
   \<and> login (bcrypt_compare toy_matches) toy_libs (\<lambda>i u. ''token'') store_first_start
       [(''username'', JStr ''admin''), (''password'', JNum 12345)] =
       Response 500 (Failure ''Login failed'' (ExnMessage IllegalArguments))"
  using login_reveals_username_to_numeric_password
          [of toy_matches toy_libs "\<lambda>i u. ''token''"]
  by simp

text \<open>The username is passed to the driver as it is: an array with one text in it is
  spread over the placeholder and finds the admin of that name.\<close>

lemma login_array_username_example:
  "login (bcrypt_compare toy_matches) toy_libs sign store_first_start
     [(''username'', JArr [JStr ''admin'']), (''password'', JStr ''admin123'')] =
   Response 200 (LoggedIn ''Login successful'' (sign 1 ''admin'') 1 ''admin'')
   \<and> login (bcrypt_compare toy_matches) toy_libs sign store_first_start
       [(''username'', JArr []), (''password'', JStr ''admin123'')] =
     Response 500 (Failure ''Login failed'' (ExnMessage TooFewValues))"
  by (simp add: login_def getprop_def find_admin_def bind_args_def store_as_def
      bcrypt_compare_def store_first_start_admins toy_matches_def toy_hash_def)

end
